theory Spec2Isabelle
  imports Main "HOL-Library.Word"
begin

unbundle bit_operations_syntax

section \<open>Basic types of the engine\<close>

text \<open>
  \<^verbatim>\<open>using U64 = uint64_t; using Move = uint32_t; using Square = int;
  using Value = int; using Depth = int;\<close>
  Bitboards and hash keys are 64-bit words and moves are 32-bit words. Squares, values
  and depths are C \<^verbatim>\<open>int\<close>s; no operation modelled below takes them near the 32-bit
  limits, so they are unbounded integers here.
\<close>

type_synonym U64 = "64 word"
type_synonym Move = "32 word"

datatype Color = WHITE | BLACK

datatype Bound = BOUND_NONE | BOUND_UPPER | BOUND_LOWER | BOUND_EXACT

text \<open>
  \<^verbatim>\<open>enum PieceType { NO_PIECE, PAWN, KNIGHT, BISHOP, ROOK, QUEEN, KING };\<close> Piece types
  are stored in the mailbox packed with the colour and are used as array indices, so
  they stay the integer codes of the enumeration.
\<close>

definition NO_PIECE :: int where "NO_PIECE = 0"
definition PAWN :: int where "PAWN = 1"
definition KNIGHT :: int where "KNIGHT = 2"
definition BISHOP :: int where "BISHOP = 3"
definition ROOK :: int where "ROOK = 4"
definition QUEEN :: int where "QUEEN = 5"
definition KING :: int where "KING = 6"

definition NO_MOVE :: Move where "NO_MOVE = 0"
definition NULL_MOVE :: Move where "NULL_MOVE = 0xFFFFFFFF"
definition MAX_PLY :: int where "MAX_PLY = 128"
definition MAX_QSEARCH_DEPTH :: int where "MAX_QSEARCH_DEPTH = 8"
definition MATE_SCORE :: int where "MATE_SCORE = 32000"
definition INF_VALUE :: int where "INF_VALUE = 32001"
text \<open>\<^verbatim>\<open>INF\<close> of the source is \<open>INF_VALUE\<close> here (\<open>INF\<close> is a binder of HOL).\<close>

definition MATE_OFFSET :: int where "MATE_OFFSET = 20000"
definition SINGULAR_EXTENSION_DEPTH :: int where "SINGULAR_EXTENSION_DEPTH = 8"
definition SINGULAR_MARGIN :: int where "SINGULAR_MARGIN = 50"

section \<open>Transposition table\<close>

text \<open>
  \<^verbatim>\<open>struct TTEntry { U64 key; Depth depth; Value score; Bound bound; Move move; int age; int dtz; };\<close>
  The fields carry the prefix \<open>e_\<close> (the source writes \<^verbatim>\<open>e.key\<close>, \<^verbatim>\<open>e.depth\<close>, ...).
\<close>

record TTEntry =
  e_key :: U64
  e_depth :: int
  e_score :: int
  e_bound :: Bound
  e_move :: Move
  e_age :: int
  e_dtz :: int

text \<open>
  The table is the vector \<^verbatim>\<open>table\<close> together with the current search \<^verbatim>\<open>age\<close>; the member
  \<^verbatim>\<open>size\<close> always equals the length of the vector. The mutex only serialises
  whole calls and is not modelled.
\<close>

record TranspositionTable =
  table :: "TTEntry list"
  age :: int

definition new_search :: "TranspositionTable \<Rightarrow> TranspositionTable" where
  "new_search tt = tt\<lparr>age := age tt + 1\<rparr>"

text \<open>
  \<^verbatim>\<open>size_t idx = key % size;\<close> With an empty table the remainder by zero traps; that
  outcome is \<open>None\<close>.
\<close>

definition tt_index :: "TranspositionTable \<Rightarrow> U64 \<Rightarrow> nat option" where
  "tt_index tt key =
     (if length (table tt) = 0 then None else Some (unat key mod length (table tt)))"

definition store ::
  "TranspositionTable \<Rightarrow> U64 \<Rightarrow> int \<Rightarrow> int \<Rightarrow> Bound \<Rightarrow> Move \<Rightarrow> int \<Rightarrow> TranspositionTable option"
where
  "store tt key depth score bound move dtz =
     (case tt_index tt key of
        None \<Rightarrow> None
      | Some idx \<Rightarrow>
          (let e = table tt ! idx in
           if e_key e = key \<and> e_depth e > depth then Some tt
           else Some (tt\<lparr>table := (table tt)[idx :=
                  \<lparr>e_key = key, e_depth = depth, e_score = score, e_bound = bound,
                   e_move = move, e_age = age tt, e_dtz = dtz\<rparr>]\<rparr>)))"

text \<open>
  \<^verbatim>\<open>bool probe(U64 key, Depth depth, Value alpha, Value beta, Value& score, Move& move, int& dtz)\<close>
  The three reference parameters are passed in as a triple and handed back, next to the
  returned flag, with whatever the call wrote to them.
\<close>

definition probe ::
  "TranspositionTable \<Rightarrow> U64 \<Rightarrow> int \<Rightarrow> int \<Rightarrow> int \<Rightarrow> int \<times> Move \<times> int
     \<Rightarrow> (bool \<times> int \<times> Move \<times> int) option"
where
  "probe tt key depth alpha beta out =
     (case tt_index tt key of
        None \<Rightarrow> None
      | Some idx \<Rightarrow>
          (let e = table tt ! idx in
           if e_key e \<noteq> key then Some (False, out)
           else
             (let out' = (e_score e, e_move e, e_dtz e) in
              if e_depth e \<ge> depth then
                (if e_bound e = BOUND_EXACT then Some (True, out')
                 else if e_bound e = BOUND_LOWER \<and> e_score e \<ge> beta then Some (True, out')
                 else if e_bound e = BOUND_UPPER \<and> e_score e \<le> alpha then Some (True, out')
                 else Some (False, out'))
              else Some (False, out'))))"

text \<open>
  The compatibility of a stored bound with the caller's window, in the words of the
  specification: \<open>EXACT\<close> always, \<open>LOWER\<close> only when the stored score is at least
  \<open>beta\<close>, \<open>UPPER\<close> only when it is at most \<open>alpha\<close>.
\<close>

definition bound_compatible :: "TTEntry \<Rightarrow> int \<Rightarrow> int \<Rightarrow> bool" where
  "bound_compatible e alpha beta =
     (case e_bound e of
        BOUND_EXACT \<Rightarrow> True
      | BOUND_LOWER \<Rightarrow> e_score e \<ge> beta
      | BOUND_UPPER \<Rightarrow> e_score e \<le> alpha
      | BOUND_NONE \<Rightarrow> False)"

section \<open>Search: the control skeleton of negamax and quiescence\<close>

text \<open>
  \<^verbatim>\<open>SearchThread::negamax\<close> and \<^verbatim>\<open>SearchThread::quiescence\<close> recurse through the
  whole engine. The definitions below keep their control flow statement by statement;
  what a node observes from elsewhere (the static evaluation, the tablebase answers,
  the value that a recursive call returned, whether a move left the king in check) is an
  input of the model.
\<close>

definition SEE_QUIET_MARGIN :: int where "SEE_QUIET_MARGIN = -80"
definition LMP_BASE :: int where "LMP_BASE = 3"
definition LMP_FACTOR :: int where "LMP_FACTOR = 2"

subsection \<open>negamax: from the table probe to the singular extension\<close>

text \<open>
  Source lines from \<^verbatim>\<open>Move tt_move = NO_MOVE;\<close> to the end of the singular-extension
  block. \<open>search d a b excl\<close> stands for the recursive call
  \<^verbatim>\<open>negamax(pos, d, a, b, ply, false, dummy, excl)\<close> on the same position;
  \<open>tb_can_probe\<close> and \<open>tb_dtz = (dtz, dtz_success)\<close> are the answers of the tablebase.
  The stage either returns from negamax (\<open>Returned\<close>), or goes on with a depth and the
  information whether the singular search was run (\<open>Proceed\<close>); \<open>Trapped\<close> is the
  remainder by zero of an empty table.
\<close>

datatype tt_stage = Trapped | Returned int | Proceed int bool

definition negamax_tt_stage ::
  "TranspositionTable \<Rightarrow> bool \<Rightarrow> int \<times> bool \<Rightarrow> (int \<Rightarrow> int \<Rightarrow> int \<Rightarrow> Move \<Rightarrow> int)
     \<Rightarrow> U64 \<Rightarrow> int \<Rightarrow> int \<Rightarrow> int \<Rightarrow> int \<Rightarrow> Move \<Rightarrow> bool \<Rightarrow> int \<Rightarrow> tt_stage"
where
  "negamax_tt_stage tt tb_can_probe tb_dtz search key depth alpha beta cur_ply excluded
       in_check static_eval =
     (case probe tt key depth alpha beta (static_eval, NO_MOVE, 0) of
        None \<Rightarrow> Trapped
      | Some (tt_hit, tt_score, tt_move, tt_dtz) \<Rightarrow>
          if tt_hit then
            (if tt_dtz \<noteq> 0 then
               (let sign = (if tt_dtz > 0 then 1 else - 1 :: int); dist = \<bar>tt_dtz\<bar> in
                Returned (if sign = 1 then MATE_SCORE - dist - cur_ply
                          else - MATE_SCORE + dist + cur_ply))
             else if tt_score > MATE_OFFSET then
               (let s = tt_score - cur_ply in
                Returned (if s > MATE_SCORE - 1 then MATE_SCORE - 1 else s))
             else if tt_score < - MATE_OFFSET then
               (let s = tt_score + cur_ply in
                Returned (if s < - MATE_SCORE + 1 then - MATE_SCORE + 1 else s))
             else Returned tt_score)
          else
            (case (if tb_can_probe \<and> depth \<le> 3 \<and> tt_dtz = 0 \<and> \<not> tt_hit \<and> snd tb_dtz
                   then store tt key depth 0 BOUND_NONE NO_MOVE (fst tb_dtz) else Some tt) of
               None \<Rightarrow> Trapped
             | Some tt1 \<Rightarrow>
                 if tt_dtz \<noteq> 0 \<and> depth \<ge> \<bar>tt_dtz\<bar> \<and> tt_dtz > 0
                 then Returned (MATE_SCORE - tt_dtz - cur_ply - 1)
                 else if tt_hit \<and> depth \<ge> SINGULAR_EXTENSION_DEPTH \<and> tt_move \<noteq> NO_MOVE \<and>
                         excluded = NO_MOVE \<and> \<not> in_check \<and> \<bar>tt_score\<bar> < MATE_SCORE - MAX_PLY
                 then
                   (let singular_beta = max (tt_score - SINGULAR_MARGIN) (- INF_VALUE);
                        singular_depth = depth div 2;
                        singular_score = - search singular_depth (- singular_beta)
                                             (- singular_beta + 1) tt_move
                    in Proceed (if singular_score \<le> singular_beta then depth + 1 else depth) True)
                 else Proceed depth False))"

fun singular_search_ran :: "tt_stage \<Rightarrow> bool" where
  "singular_search_ran (Proceed d sr) = sr"
| "singular_search_ran r = False"

fun depth_after :: "int \<Rightarrow> tt_stage \<Rightarrow> int" where
  "depth_after depth (Proceed d sr) = d"
| "depth_after depth r = depth"

subsection \<open>negamax: move generation, the move loop and the value returned after it\<close>

text \<open>
  One entry of the vector \<^verbatim>\<open>scored\<close>, with what the node observes about the move:
  \<open>sm_target\<close> is \<^verbatim>\<open>pos.piece_on(to_sq(m))\<close>, \<open>sm_mover_in_check\<close> is
  \<^verbatim>\<open>pos.mover_in_check()\<close> after \<^verbatim>\<open>pos.make_move(m)\<close>, \<open>sm_value\<close> is the final value
  of \<^verbatim>\<open>score\<close> after the principal-variation searches of the move, \<open>sm_stop\<close> the
  flag \<^verbatim>\<open>stop_search\<close> read after them, and \<open>sm_mc_value\<close> the value of the multi-cut
  probe of the move.
\<close>

record ScoredMove =
  sm_move :: Move
  sm_score :: int
  sm_target :: int
  sm_mover_in_check :: bool
  sm_value :: int
  sm_stop :: bool
  sm_mc_value :: int

text \<open>The parameters and locals of the node that the stage reads.\<close>

record Node =
  nd_depth :: int
  nd_alpha :: int
  nd_beta :: int
  nd_ply :: int
  nd_cut :: bool
  nd_in_check :: bool
  nd_static_eval :: int
  nd_tt_move :: Move
  nd_improving :: bool
  nd_total_threads :: int
  nd_idle :: bool
  nd_split :: "int \<times> Move"

text \<open>
  \<^verbatim>\<open>pos.piece_on(to_sq(m)) && ((pos.piece_on(to_sq(m)) & 7) == KING)\<close>
\<close>

definition targets_king :: "int \<Rightarrow> bool" where
  "targets_king target = (target \<noteq> 0 \<and> target AND 7 = KING)"

text \<open>
  \<^verbatim>\<open>i >= (size_t)(n)\<close> for an \<^verbatim>\<open>int n\<close>: a negative \<open>n\<close> converts to a value above
  every index.
\<close>

definition ge_size_t :: "nat \<Rightarrow> int \<Rightarrow> bool" where
  "ge_size_t i n = (0 \<le> n \<and> n \<le> int i)"

text \<open>
  The multi-cut loop over the first three entries of \<^verbatim>\<open>scored\<close>; \<open>True\<close> when it
  executes \<^verbatim>\<open>return beta\<close>.
\<close>

fun multi_cut :: "Node \<Rightarrow> nat \<Rightarrow> ScoredMove list \<Rightarrow> bool" where
  "multi_cut nd mc_count [] = False"
| "multi_cut nd mc_count (m # ms) =
     (if sm_move m = nd_tt_move nd then multi_cut nd mc_count ms
      else if targets_king (sm_target m) then multi_cut nd mc_count ms
      else if sm_mover_in_check m then multi_cut nd mc_count ms
      else if sm_mc_value m \<ge> nd_beta nd then
        (if mc_count + 1 \<ge> 2 then True else multi_cut nd (mc_count + 1) ms)
      else multi_cut nd mc_count ms)"

text \<open>
  The state of the normal move loop: \<^verbatim>\<open>best_score\<close>, \<^verbatim>\<open>best_move\<close>, \<^verbatim>\<open>bound\<close> and
  the running \<^verbatim>\<open>alpha\<close>. The loop ends by \<^verbatim>\<open>return 0\<close> when the stop flag is seen
  (\<open>None\<close>), by \<^verbatim>\<open>break\<close> at a cutoff, or at the end of the vector.
\<close>

record LoopState =
  l_best_score :: int
  l_best_move :: Move
  l_bound :: Bound
  l_alpha :: int

fun move_loop :: "Node \<Rightarrow> nat \<Rightarrow> ScoredMove list \<Rightarrow> LoopState \<Rightarrow> LoopState option" where
  "move_loop nd i [] st = Some st"
| "move_loop nd i (m # ms) st =
     (if targets_king (sm_target m) then move_loop nd (i + 1) ms st
      else if nd_depth nd \<le> 3 \<and> \<not> nd_in_check nd \<and> sm_target m = 0 \<and>
              nd_static_eval nd
                + (SEE_QUIET_MARGIN + nd_depth nd * 50
                   + (if sm_score m < 500000 then 4 * nd_depth nd else 0)) \<le> l_alpha st
      then move_loop nd (i + 1) ms st
      else if sm_target m = 0 \<and> \<not> nd_in_check nd \<and> nd_depth nd \<le> 7 \<and>
              ge_size_t i (LMP_BASE + nd_depth nd * LMP_FACTOR) \<and>
              (\<not> nd_improving nd \<or> ge_size_t i (LMP_BASE + nd_depth nd * LMP_FACTOR * 2))
      then move_loop nd (i + 1) ms st
      else if sm_mover_in_check m then move_loop nd (i + 1) ms st
      else if sm_stop m then None
      else if sm_value m > l_best_score st then
        (if sm_value m > l_alpha st then
           (if sm_value m \<ge> nd_beta nd
            then Some \<lparr>l_best_score = sm_value m, l_best_move = sm_move m,
                       l_bound = BOUND_LOWER, l_alpha = sm_value m\<rparr>
            else move_loop nd (i + 1) ms
                   \<lparr>l_best_score = sm_value m, l_best_move = sm_move m,
                    l_bound = BOUND_EXACT, l_alpha = sm_value m\<rparr>)
         else move_loop nd (i + 1) ms (st\<lparr>l_best_score := sm_value m, l_best_move := sm_move m\<rparr>))
      else move_loop nd (i + 1) ms st)"

text \<open>
  \<^verbatim>\<open>store_score\<close>: mate scores are stored relative to the root.
\<close>

definition store_score :: "int \<Rightarrow> int \<Rightarrow> int" where
  "store_score v cur_ply =
     (if v > MATE_SCORE - MAX_PLY then v + cur_ply
      else if v < - MATE_SCORE + MAX_PLY then v - cur_ply
      else v)"

text \<open>
  From \<^verbatim>\<open>int cnt = generate_moves(pos, moves);\<close> to the end of negamax. \<open>cnt\<close> is the
  number of generated moves and \<open>scored\<close> the sorted vector (the generated moves
  without the excluded one). The result is the value returned together with the
  arguments \<open>(score, bound, move)\<close> of the final \<^verbatim>\<open>tt.store\<close>, when one is made.
\<close>

definition negamax_moves ::
  "Node \<Rightarrow> nat \<Rightarrow> ScoredMove list \<Rightarrow> int \<times> (int \<times> Bound \<times> Move) option"
where
  "negamax_moves nd cnt scored =
     (if cnt = 0 then ((if nd_in_check nd then - MATE_SCORE + nd_ply nd else 0), None)
      else if nd_depth nd \<ge> 6 \<and> \<not> nd_in_check nd \<and> nd_cut nd \<and> nd_tt_move nd \<noteq> NO_MOVE \<and>
              multi_cut nd 0 (take 3 scored)
      then (nd_beta nd, None)
      else if nd_total_threads nd > 1 \<and> nd_depth nd \<ge> 6 \<and> length scored > 5 \<and> \<not> nd_idle nd \<and>
              fst (nd_split nd) \<noteq> - INF_VALUE
      then
        (let b = fst (nd_split nd);
             bnd = (if b \<ge> nd_beta nd then BOUND_LOWER
                    else if b > nd_alpha nd then BOUND_EXACT else BOUND_UPPER)
         in (b, Some (store_score b (nd_ply nd), bnd, snd (nd_split nd))))
      else
        (case move_loop nd 0 scored
                \<lparr>l_best_score = - INF_VALUE, l_best_move = NO_MOVE, l_bound = BOUND_UPPER,
                 l_alpha = nd_alpha nd\<rparr> of
           None \<Rightarrow> (0, None)
         | Some st \<Rightarrow>
             (let st' = (if l_best_score st = - INF_VALUE
                         then st\<lparr>l_best_score :=
                                   (if nd_in_check nd then - MATE_SCORE + nd_ply nd else 0),
                                 l_bound := BOUND_EXACT, l_best_move := NO_MOVE\<rparr>
                         else st)
              in (l_best_score st',
                  Some (store_score (l_best_score st') (nd_ply nd), l_bound st', l_best_move st')))))"

subsection \<open>quiescence\<close>

text \<open>
  What a quiescence node reads: its parameters, the value of
  \<^verbatim>\<open>eval.evaluate(pos) + learning.probe(pos.get_hash())\<close>, the node counter after
  \<^verbatim>\<open>nodes++\<close>, the stop flag, the time manager, the repetition test and the tablebase.
\<close>

record QNode =
  q_alpha :: int
  q_beta :: int
  q_ply :: int
  q_depth :: int
  q_eval :: int
  q_nodes :: nat
  q_stop_search :: bool
  q_stop_early :: bool
  q_node_limit :: nat
  q_repetition :: bool
  q_tb_can_probe :: bool
  q_dtz :: int
  q_dtz_success :: bool
  q_in_check :: bool

text \<open>
  One sorted move of the node: the piece on its target square, \<^verbatim>\<open>pos.see(m)\<close>,
  \<^verbatim>\<open>pos.mover_in_check()\<close> after the move, and the value
  \<^verbatim>\<open>-quiescence(pos, -beta, -alpha, ply+1, q_depth+1)\<close>.
\<close>

record QMove =
  qm_target :: int
  qm_see :: int
  qm_mover_in_check :: bool
  qm_value :: int

text \<open>The returns before the move generation; \<open>None\<close> when none of them is taken.\<close>

definition quiescence_early :: "QNode \<Rightarrow> int option" where
  "quiescence_early q =
     (if q_ply q \<ge> MAX_PLY \<or> q_depth q \<ge> MAX_QSEARCH_DEPTH then Some (q_eval q)
      else if q_nodes q mod 256 = 0 \<and> q_stop_search q then Some 0
      else if q_nodes q mod 256 = 0 \<and> q_stop_early q then Some 0
      else if q_node_limit q > 0 \<and> q_nodes q \<ge> q_node_limit q then Some 0
      else if q_repetition q then Some 0
      else if q_tb_can_probe q \<and> q_dtz_success q then
        (let sign = (if q_dtz q > 0 then 1 else - 1 :: int); dist = \<bar>q_dtz q\<bar> in
         Some (if sign = 1 then MATE_SCORE - dist - q_ply q else - MATE_SCORE + dist + q_ply q))
      else if \<not> q_in_check q \<and> q_eval q \<ge> q_beta q then Some (q_beta q)
      else None)"

text \<open>
  The capture loop with the running \<^verbatim>\<open>alpha\<close> and \<^verbatim>\<open>legal_count\<close>, and the two
  returns after it.
\<close>

fun quiescence_loop :: "QNode \<Rightarrow> QMove list \<Rightarrow> int \<Rightarrow> nat \<Rightarrow> int" where
  "quiescence_loop q [] a legal_count =
     (if q_in_check q \<and> legal_count = 0 then - MATE_SCORE + q_ply q else a)"
| "quiescence_loop q (m # ms) a legal_count =
     (if targets_king (qm_target m) then quiescence_loop q ms a legal_count
      else if \<not> q_in_check q \<and> qm_see m + 200 + q_eval q < a
      then quiescence_loop q ms a legal_count
      else if qm_mover_in_check m then quiescence_loop q ms a legal_count
      else if qm_value m \<ge> q_beta q then q_beta q
      else quiescence_loop q ms (if qm_value m > a then qm_value m else a) (legal_count + 1))"

definition quiescence :: "QNode \<Rightarrow> QMove list \<Rightarrow> int" where
  "quiescence q moves =
     (case quiescence_early q of
        Some v \<Rightarrow> v
      | None \<Rightarrow>
          quiescence_loop q moves
            (if \<not> q_in_check q \<and> q_eval q > q_alpha q then q_eval q else q_alpha q) 0)"

section \<open>Squares, moves and bitboards\<close>

definition color_int :: "Color \<Rightarrow> int" where
  "color_int c = (case c of WHITE \<Rightarrow> 0 | BLACK \<Rightarrow> 1)"

text \<open>\<^verbatim>\<open>Color(c ^ 1)\<close>\<close>

definition opp :: "Color \<Rightarrow> Color" where
  "opp c = (case c of WHITE \<Rightarrow> BLACK | BLACK \<Rightarrow> WHITE)"

text \<open>The mailbox code \<^verbatim>\<open>(c << 3) | pt\<close> of a piece.\<close>

definition piece_code :: "Color \<Rightarrow> int \<Rightarrow> int" where
  "piece_code c pt = push_bit 3 (color_int c) OR pt"

definition make_square :: "int \<Rightarrow> int \<Rightarrow> int" where
  "make_square f r = r * 8 + f"

definition file_of :: "int \<Rightarrow> int" where
  "file_of s = s AND 7"

definition rank_of :: "int \<Rightarrow> int" where
  "rank_of s = drop_bit 3 s"

definition from_sq :: "Move \<Rightarrow> int" where
  "from_sq m = uint (drop_bit 6 m AND 63)"

definition to_sq :: "Move \<Rightarrow> int" where
  "to_sq m = uint (m AND 63)"

text \<open>
  The free function \<^verbatim>\<open>Move make_move(Square from, Square to)\<close>; it is \<open>make_move_sq\<close>
  here, the name \<open>make_move\<close> being kept for \<^verbatim>\<open>Position::make_move\<close>.
\<close>

definition make_move_sq :: "int \<Rightarrow> int \<Rightarrow> Move" where
  "make_move_sq fromsq tosq = word_of_int (push_bit 6 fromsq OR tosq)"

definition PROMO_MASK :: Move where "PROMO_MASK = 0xF000"
definition PROMO_KNIGHT :: Move where "PROMO_KNIGHT = 0x1000"
definition PROMO_BISHOP :: Move where "PROMO_BISHOP = 0x2000"
definition PROMO_ROOK :: Move where "PROMO_ROOK = 0x3000"
definition PROMO_QUEEN :: Move where "PROMO_QUEEN = 0x4000"
definition CASTLE_FLAG :: Move where "CASTLE_FLAG = 0x5000"
definition ENPASSANT_FLAG :: Move where "ENPASSANT_FLAG = 0x6000"


definition promotion_type :: "Move \<Rightarrow> int" where
  "promotion_type m =
     (let flag = m AND PROMO_MASK in
      if flag = PROMO_KNIGHT then KNIGHT
      else if flag = PROMO_BISHOP then BISHOP
      else if flag = PROMO_ROOK then ROOK
      else if flag = PROMO_QUEEN then QUEEN
      else NO_PIECE)"

definition is_castling :: "Move \<Rightarrow> bool" where
  "is_castling m = (m AND PROMO_MASK = CASTLE_FLAG)"

definition is_en_passant :: "Move \<Rightarrow> bool" where
  "is_en_passant m = (m AND PROMO_MASK = ENPASSANT_FLAG)"

text \<open>
  \<^verbatim>\<open>1ULL << s\<close>. Outside the squares 0 to 63 the C shift is undefined behaviour;
  \<open>sq_bit\<close> answers there as for square 0 (a negative \<open>s\<close>) or with the empty board
  (\<open>s > 63\<close>), which is not what the program does. The source can reach this: see
  \<open>castle_rook_move\<close> below.
\<close>

definition sq_bit :: "int \<Rightarrow> U64" where
  "sq_bit s = push_bit (nat s) 1"

text \<open>\<^verbatim>\<open>__builtin_popcountll\<close>\<close>

definition popcount :: "U64 \<Rightarrow> int" where
  "popcount b = int (length (filter (bit b) [0..<64]))"

text \<open>
  \<^verbatim>\<open>lsb\<close> is \<^verbatim>\<open>__builtin_ctzll\<close>, the index of the lowest set bit. The source asserts
  \<open>b \<noteq> 0\<close> and calls it on non-empty boards only; on the empty board the model
  answers 64.
\<close>

definition lsb :: "U64 \<Rightarrow> int" where
  "lsb b = (case filter (bit b) [0..<64] of [] \<Rightarrow> 64 | n # ns \<Rightarrow> int n)"

text \<open>
  The loop \<^verbatim>\<open>while (bb) { Square sq = pop_lsb(bb); ... }\<close> visits the squares
  \<open>bb_squares bb\<close> in this order; \<^verbatim>\<open>pop_lsb\<close> returns \<open>lsb b\<close> and leaves
  \<open>b AND (b - 1)\<close>.
\<close>

function bb_squares :: "U64 \<Rightarrow> int list" where
  "bb_squares b = (if b = 0 then [] else lsb b # bb_squares (b AND (b - 1)))"
  by pat_completeness auto
termination
proof (relation "measure unat")
  show "wf (measure unat)" by simp
next
  fix b :: U64
  assume "b \<noteq> 0"
  then have "unat (b - 1) < unat b" by (rule measure_unat)
  moreover have "unat (b AND (b - 1)) \<le> unat (b - 1)"
    using word_and_le1 [of b "b - 1"] by (simp add: word_le_nat_alt)
  ultimately show "(b AND (b - 1), b) \<in> measure unat" by simp
qed

declare bb_squares.simps [simp del]

section \<open>Position\<close>

text \<open>
  The two-dimensional arrays of the class are stored row by row:
  \<^verbatim>\<open>_pieces[c][pt]\<close> is entry \<open>7 * c + pt\<close> of \<open>pieces\<close> and
  \<^verbatim>\<open>castle_rook_sq[c][s]\<close> is entry \<open>2 * c + s\<close> of \<open>castle_rook_sq\<close>. The mailbox
  \<open>board\<close> has 64 entries. An index outside an array is undefined behaviour in C++.
  The model gives it no faithful meaning: an index is turned into a natural number by
  \<open>nat\<close>, so that a negative index reads and writes entry 0, and a list update beyond
  the end of the list does nothing. The squares of a generated move are in range; the
  castling slot read by a castling move need not be (see \<open>castle_rook_move\<close>).
\<close>

record Position =
  pieces :: "U64 list"
  board :: "int list"
  side :: Color
  occupied :: U64
  fifty :: int
  ply :: int
  game_ply :: int
  ep_square :: int
  castle_rook_sq :: "int list"
  chess960 :: bool
  hash :: U64
  history :: "U64 list"

definition bb :: "Position \<Rightarrow> Color \<Rightarrow> int \<Rightarrow> U64" where
  "bb P c pt = pieces P ! nat (7 * color_int c + pt)"

definition set_bb :: "Position \<Rightarrow> Color \<Rightarrow> int \<Rightarrow> U64 \<Rightarrow> Position" where
  "set_bb P c pt v = P\<lparr>pieces := (pieces P)[nat (7 * color_int c + pt) := v]\<rparr>"

text \<open>\<^verbatim>\<open>_pieces[c][pt] ^= 1ULL << s\<close> and \<^verbatim>\<open>_pieces[c][pt] |= 1ULL << s\<close>\<close>

definition xor_bb :: "Position \<Rightarrow> Color \<Rightarrow> int \<Rightarrow> int \<Rightarrow> Position" where
  "xor_bb P c pt s = set_bb P c pt (bb P c pt XOR sq_bit s)"

definition or_bb :: "Position \<Rightarrow> Color \<Rightarrow> int \<Rightarrow> int \<Rightarrow> Position" where
  "or_bb P c pt s = set_bb P c pt (bb P c pt OR sq_bit s)"

definition piece_on :: "Position \<Rightarrow> int \<Rightarrow> int" where
  "piece_on P s = board P ! nat s"

definition set_board :: "Position \<Rightarrow> int \<Rightarrow> int \<Rightarrow> Position" where
  "set_board P s v = P\<lparr>board := (board P)[nat s := v]\<rparr>"

definition castle_rook :: "Position \<Rightarrow> Color \<Rightarrow> int \<Rightarrow> int" where
  "castle_rook P c s = castle_rook_sq P ! nat (2 * color_int c + s)"

definition set_castle_rook :: "Position \<Rightarrow> Color \<Rightarrow> int \<Rightarrow> int \<Rightarrow> Position" where
  "set_castle_rook P c s v =
     P\<lparr>castle_rook_sq := (castle_rook_sq P)[nat (2 * color_int c + s) := v]\<rparr>"

definition update_occupied :: "Position \<Rightarrow> Position" where
  "update_occupied P =
     P\<lparr>occupied :=
         fold (\<lambda>c occ. fold (\<lambda>pt occ. occ OR bb P c pt) [PAWN..KING] occ) [WHITE, BLACK] 0\<rparr>"

text \<open>
  The Zobrist keys are drawn from \<^verbatim>\<open>std::mt19937_64\<close> at start-up. The generator is
  not modelled: the key tables are a parameter of every function that hashes.
\<close>

record Zobrist =
  z_pieces :: "Color \<Rightarrow> int \<Rightarrow> int \<Rightarrow> U64"
  z_side :: U64
  z_castle :: "int \<Rightarrow> U64"
  z_ep :: "int \<Rightarrow> U64"

definition compute_hash :: "Zobrist \<Rightarrow> Position \<Rightarrow> Position" where
  "compute_hash zk P =
     (let h0 = fold (\<lambda>c h. fold (\<lambda>pt h.
                   fold (\<lambda>sq h. h XOR z_pieces zk c pt sq) (bb_squares (bb P c pt)) h)
                 [PAWN..KING] h) [WHITE, BLACK] 0;
          h1 = (if side P = BLACK then h0 XOR z_side zk else h0);
          castle_mask =
            (if castle_rook P WHITE 0 \<noteq> - 1 then 1 else 0) OR
            (if castle_rook P WHITE 1 \<noteq> - 1 then 2 else 0) OR
            (if castle_rook P BLACK 0 \<noteq> - 1 then 4 else 0) OR
            (if castle_rook P BLACK 1 \<noteq> - 1 then 8 else (0 :: int));
          h2 = h1 XOR z_castle zk castle_mask;
          h3 = (if ep_square P \<noteq> - 1 then h2 XOR z_ep zk (ep_square P) else h2)
      in P\<lparr>hash := h3\<rparr>)"

definition push_hash :: "Position \<Rightarrow> Position" where
  "push_hash P = P\<lparr>history := history P @ [hash P]\<rparr>"

definition pop_hash :: "Position \<Rightarrow> Position" where
  "pop_hash P = P\<lparr>history := butlast (history P)\<rparr>"

text \<open>
  \<^verbatim>\<open>castling_rights\<close> packs the four slots, seven bits each, as \<open>square + 1\<close>;
  \<^verbatim>\<open>restore_castling_rights\<close> unpacks them.
\<close>

definition enc :: "int \<Rightarrow> int" where
  "enc sq = (sq + 1) AND 0x7F"

definition dec :: "int \<Rightarrow> int" where
  "dec v = (v AND 0x7F) - 1"

definition castling_rights :: "Position \<Rightarrow> int" where
  "castling_rights P =
     enc (castle_rook P WHITE 0)
       OR push_bit 7 (enc (castle_rook P WHITE 1))
       OR push_bit 14 (enc (castle_rook P BLACK 0))
       OR push_bit 21 (enc (castle_rook P BLACK 1))"

definition restore_castling_rights :: "Position \<Rightarrow> int \<Rightarrow> Position" where
  "restore_castling_rights P packed =
     set_castle_rook
       (set_castle_rook
          (set_castle_rook
             (set_castle_rook P WHITE 0 (dec packed))
             WHITE 1 (dec (drop_bit 7 packed)))
          BLACK 0 (dec (drop_bit 14 packed)))
       BLACK 1 (dec (drop_bit 21 packed))"

subsection \<open>make_move\<close>

text \<open>
  The tail shared by both branches of \<^verbatim>\<open>make_move\<close>:
  \<^verbatim>\<open>ply++; if (side == WHITE) game_ply++; push_hash(); compute_hash();\<close>
\<close>

definition finish_move :: "Zobrist \<Rightarrow> Position \<Rightarrow> Position" where
  "finish_move zk P =
     (let P1 = P\<lparr>ply := ply P + 1\<rparr>;
          P2 = (if side P1 = WHITE then P1\<lparr>game_ply := game_ply P1 + 1\<rparr> else P1)
      in compute_hash zk (push_hash P2))"

text \<open>
  One round of the loop \<^verbatim>\<open>for (int s = 0; s < 2; ++s)\<close> that clears the castling slots
  referring to the square the move starts from.
\<close>

definition clear_slots_from :: "Color \<Rightarrow> int \<Rightarrow> int \<Rightarrow> Position \<Rightarrow> Position" where
  "clear_slots_from us fromsq s P =
     (let P1 = (if fromsq = castle_rook P us s then set_castle_rook P us s (- 1) else P)
      in if fromsq = castle_rook P1 (opp us) s then set_castle_rook P1 (opp us) s (- 1) else P1)"

text \<open>
  The blocks of \<^verbatim>\<open>make_move\<close> for a move other than the null move, in the order of the
  source. \<open>us\<close> is the side to move, \<open>pc\<close> the piece on the origin square and
  \<open>pt = pc & 7\<close> its type.
\<close>

text \<open>\<^verbatim>\<open>_pieces[us][pt] ^= 1ULL << from; board[from] = 0;\<close>\<close>

definition lift_piece :: "Position \<Rightarrow> Color \<Rightarrow> int \<Rightarrow> int \<Rightarrow> Position" where
  "lift_piece P us pt fromsq = set_board (xor_bb P us pt fromsq) fromsq 0"

text \<open>
  The block \<^verbatim>\<open>if (is_castling(m)) { ... }\<close>: the rook goes to the f- or d-file. The
  block picks the slot by \<^verbatim>\<open>to > from\<close> and does not test it. When that slot is
  \<open>-1\<close> (the king on b1 castling with the rook on a1 moves to c1, and \<^verbatim>\<open>to > from\<close>
  picks slot 0), the source executes \<^verbatim>\<open>1ULL << -1\<close> and \<^verbatim>\<open>board[-1] = 0\<close>, which is
  undefined behaviour; the model then acts on square 0 instead and says nothing about the
  program. The block is the program's on the inputs where the slot holds a square.
\<close>

definition castle_rook_move :: "Position \<Rightarrow> Color \<Rightarrow> int \<Rightarrow> int \<Rightarrow> Position" where
  "castle_rook_move P us fromsq tosq =
     (let side_idx = (if tosq > fromsq then 0 else 1);
          rook_sq = castle_rook P us side_idx;
          castling_rank_mk = (if us = WHITE then 0 else 7);
          rook_dest = make_square (if side_idx = 0 then 5 else 3) castling_rank_mk;
          Q1 = or_bb (xor_bb P us ROOK rook_sq) us ROOK rook_dest;
          Q2 = set_board (set_board Q1 rook_sq 0) rook_dest (piece_code us ROOK)
      in set_castle_rook Q2 us side_idx (- 1))"

text \<open>The block \<^verbatim>\<open>else if (is_en_passant(m)) { ... }\<close>, without the assignment to
  \<^verbatim>\<open>captured\<close>.\<close>

definition en_passant_capture :: "Position \<Rightarrow> Color \<Rightarrow> int \<Rightarrow> Position" where
  "en_passant_capture P us tosq =
     (let ep_cap = tosq + (if us = WHITE then - 8 else 8);
          ep_pc = piece_on P ep_cap
      in if ep_pc \<noteq> 0 then set_board (xor_bb P (opp us) (ep_pc AND 7) ep_cap) ep_cap 0 else P)"

definition special_move :: "Position \<Rightarrow> Move \<Rightarrow> Color \<Rightarrow> int \<Rightarrow> int \<Rightarrow> Position" where
  "special_move P m us fromsq tosq =
     (if is_castling m then castle_rook_move P us fromsq tosq
      else if is_en_passant m then en_passant_capture P us tosq
      else P)"

text \<open>
  The value of \<^verbatim>\<open>captured\<close> after these blocks: \<^verbatim>\<open>board[to]\<close> as read at the start,
  replaced by \<^verbatim>\<open>ep_pc\<close> in the en-passant block.
\<close>

definition captured_piece :: "Position \<Rightarrow> Move \<Rightarrow> Color \<Rightarrow> int \<Rightarrow> int \<Rightarrow> int" where
  "captured_piece P m us tosq captured0 =
     (if is_castling m then captured0
      else if is_en_passant m then piece_on P (tosq + (if us = WHITE then - 8 else 8))
      else captured0)"

text \<open>\<^verbatim>\<open>_pieces[us][pt] |= 1ULL << to; board[to] = pc;\<close>\<close>

definition drop_piece :: "Position \<Rightarrow> Color \<Rightarrow> int \<Rightarrow> int \<Rightarrow> int \<Rightarrow> Position" where
  "drop_piece P us pt tosq pc = set_board (or_bb P us pt tosq) tosq pc"

definition remove_captured :: "Position \<Rightarrow> Move \<Rightarrow> Color \<Rightarrow> int \<Rightarrow> int \<Rightarrow> Position" where
  "remove_captured P m us captured tosq =
     (if captured \<noteq> 0 \<and> \<not> is_en_passant m \<and> \<not> is_castling m
      then xor_bb P (opp us) (captured AND 7) tosq else P)"

definition promote :: "Position \<Rightarrow> Move \<Rightarrow> Color \<Rightarrow> int \<Rightarrow> int \<Rightarrow> Position" where
  "promote P m us pt tosq =
     (if promotion_type m \<noteq> NO_PIECE then
        (let prom = promotion_type m
         in set_board (or_bb (xor_bb P us pt tosq) us prom tosq) tosq (piece_code us prom))
      else P)"

text \<open>
  \<^verbatim>\<open>if (pt == KING) castle_rook_sq[us][0] = castle_rook_sq[us][1] = -1;\<close> followed by
  the loop over the two slots.
\<close>

definition update_castle_slots :: "Position \<Rightarrow> Color \<Rightarrow> int \<Rightarrow> int \<Rightarrow> Position" where
  "update_castle_slots P us pt fromsq =
     fold (clear_slots_from us fromsq) [0, 1]
       (if pt = KING then set_castle_rook (set_castle_rook P us 1 (- 1)) us 0 (- 1) else P)"

definition set_en_passant :: "Position \<Rightarrow> Color \<Rightarrow> int \<Rightarrow> int \<Rightarrow> int \<Rightarrow> Position" where
  "set_en_passant P us pt fromsq tosq =
     (if pt = PAWN \<and> \<bar>tosq - fromsq\<bar> = 16
      then P\<lparr>ep_square := (if us = WHITE then fromsq + 8 else fromsq - 8)\<rparr>
      else P\<lparr>ep_square := - 1\<rparr>)"

definition set_fifty :: "Position \<Rightarrow> int \<Rightarrow> int \<Rightarrow> Position" where
  "set_fifty P captured pt =
     (if captured \<noteq> 0 \<or> pt = PAWN then P\<lparr>fifty := 0\<rparr> else P\<lparr>fifty := fifty P + 1\<rparr>)"

definition make_move :: "Zobrist \<Rightarrow> Position \<Rightarrow> Move \<Rightarrow> Position" where
  "make_move zk P m =
     (if m = NULL_MOVE then finish_move zk (P\<lparr>side := opp (side P)\<rparr>)
      else
        (let fromsq = from_sq m; tosq = to_sq m;
             pc = piece_on P fromsq;
             pt = pc AND 7;
             us = side P;
             them = opp us;
             captured0 = piece_on P tosq;
             P1 = lift_piece P us pt fromsq;
             P2 = special_move P1 m us fromsq tosq;
             captured = captured_piece P1 m us tosq captured0;
             P3 = drop_piece P2 us pt tosq pc;
             P4 = remove_captured P3 m us captured tosq;
             P5 = promote P4 m us pt tosq;
             P6 = update_castle_slots P5 us pt fromsq;
             P7 = set_en_passant P6 us pt fromsq tosq;
             P8 = set_fifty P7 captured pt;
             P9 = update_occupied P8
         in finish_move zk (P9\<lparr>side := them\<rparr>)))"

subsection \<open>undo_move\<close>

definition undo_null_move :: "Zobrist \<Rightarrow> Position \<Rightarrow> Position" where
  "undo_null_move zk P =
     (let P1 = P\<lparr>side := opp (side P), ply := ply P - 1\<rparr>;
          P2 = (if side P1 = BLACK then P1\<lparr>game_ply := game_ply P1 - 1\<rparr> else P1)
      in compute_hash zk (pop_hash P2))"

text \<open>
  The blocks of \<^verbatim>\<open>undo_move\<close>, in the order of the source; \<open>us\<close> is the side that made
  the move and \<open>pt\<close> the type of the piece found on the target square.
\<close>

text \<open>
  \<^verbatim>\<open>_pieces[us][pt] ^= 1ULL << to; board[to] = captured;
  _pieces[us][pt] |= 1ULL << from; board[from] = (us << 3) | pt;\<close>
\<close>

definition move_back :: "Position \<Rightarrow> Color \<Rightarrow> int \<Rightarrow> int \<Rightarrow> int \<Rightarrow> int \<Rightarrow> Position" where
  "move_back P us pt fromsq tosq captured =
     set_board (or_bb (set_board (xor_bb P us pt tosq) tosq captured) us pt fromsq)
       fromsq (piece_code us pt)"

definition restore_captured :: "Position \<Rightarrow> Move \<Rightarrow> Color \<Rightarrow> int \<Rightarrow> int \<Rightarrow> Position" where
  "restore_captured P m us captured tosq =
     (if captured \<noteq> 0 \<and> \<not> is_en_passant m \<and> \<not> is_castling m
      then or_bb P (opp us) (captured AND 7) tosq else P)"

text \<open>
  The square the castling rook came from, decoded from \<^verbatim>\<open>old_castle\<close>. When the
  decoded slot is \<open>-1\<close> the source writes \<^verbatim>\<open>board[-1]\<close> and shifts by \<open>-1\<close> in
  \<open>castle_rook_back\<close> (undefined behaviour), where the model writes square 0: as for
  \<open>castle_rook_move\<close>, the model is the program's only where the slot holds a square.
\<close>

definition orig_rook_sq :: "Color \<Rightarrow> int \<Rightarrow> int \<Rightarrow> int" where
  "orig_rook_sq us side_idx old_castle =
     (let orig = (if side_idx = 0 then dec old_castle else dec (drop_bit 7 old_castle))
      in if us = BLACK
         then (if side_idx = 0 then dec (drop_bit 14 old_castle)
               else dec (drop_bit 21 old_castle))
         else orig)"

definition castle_rook_back :: "Position \<Rightarrow> Color \<Rightarrow> int \<Rightarrow> int \<Rightarrow> int \<Rightarrow> Position" where
  "castle_rook_back P us fromsq tosq old_castle =
     (let side_idx = (if tosq > fromsq then 0 else 1);
          orig = orig_rook_sq us side_idx old_castle;
          castling_rank = (if us = WHITE then 0 else 7);
          rook_dest = make_square (if side_idx = 0 then 5 else 3) castling_rank;
          Q1 = or_bb (xor_bb P us ROOK rook_dest) us ROOK orig
      in set_board (set_board Q1 rook_dest 0) orig (piece_code us ROOK))"

definition en_passant_back :: "Position \<Rightarrow> Color \<Rightarrow> int \<Rightarrow> Position" where
  "en_passant_back P us tosq =
     (let ep_cap = tosq + (if us = WHITE then - 8 else 8)
      in set_board (or_bb P (opp us) PAWN ep_cap) ep_cap (piece_code (opp us) PAWN))"

definition special_back :: "Position \<Rightarrow> Move \<Rightarrow> Color \<Rightarrow> int \<Rightarrow> int \<Rightarrow> int \<Rightarrow> Position" where
  "special_back P m us fromsq tosq old_castle =
     (if is_castling m then castle_rook_back P us fromsq tosq old_castle
      else if is_en_passant m then en_passant_back P us tosq
      else P)"

definition unpromote :: "Position \<Rightarrow> Move \<Rightarrow> Color \<Rightarrow> int \<Rightarrow> Position" where
  "unpromote P m us fromsq =
     (if promotion_type m \<noteq> NO_PIECE then
        set_board (or_bb (xor_bb P us (promotion_type m) fromsq) us PAWN fromsq)
          fromsq (piece_code us PAWN)
      else P)"

definition undo_move :: "Zobrist \<Rightarrow> Position \<Rightarrow> Move \<Rightarrow> int \<Rightarrow> int \<Rightarrow> int \<Rightarrow> int \<Rightarrow> Position" where
  "undo_move zk P m captured old_castle old_ep old_fifty =
     (if m = NULL_MOVE then undo_null_move zk P
      else
        (let P0 = P\<lparr>side := opp (side P)\<rparr>;
             fromsq = from_sq m; tosq = to_sq m;
             pc = piece_on P0 tosq;
             pt = pc AND 7;
             us = side P0;
             P1 = move_back P0 us pt fromsq tosq captured;
             P2 = restore_captured P1 m us captured tosq;
             P3 = special_back P2 m us fromsq tosq old_castle;
             P4 = unpromote P3 m us fromsq;
             P5 = restore_castling_rights P4 old_castle;
             P6 = update_occupied (P5\<lparr>ep_square := old_ep, fifty := old_fifty\<rparr>);
             P7 = P6\<lparr>ply := ply P6 - 1\<rparr>;
             P8 = (if side P7 = BLACK then P7\<lparr>game_ply := game_ply P7 - 1\<rparr> else P7)
         in compute_hash zk (pop_hash P8)))"

subsection \<open>Setting up a position\<close>

text \<open>\<^verbatim>\<open>Position::clear\<close>\<close>

definition clear :: Position where
  "clear = \<lparr>pieces = replicate 14 0, board = replicate 64 0, side = WHITE, occupied = 0,
            fifty = 0, ply = 0, game_ply = 0, ep_square = - 1,
            castle_rook_sq = [- 1, - 1, - 1, - 1], chess960 = False, hash = 0,
            history = [0]\<rparr>"

text \<open>
  What \<^verbatim>\<open>set_fen\<close> does for one piece letter:
  \<^verbatim>\<open>_pieces[col][pt] |= 1ULL << sq; board[sq] = (col << 3) | pt;\<close>
\<close>

definition put_piece :: "Color \<Rightarrow> int \<Rightarrow> int \<Rightarrow> Position \<Rightarrow> Position" where
  "put_piece col pt sq P = set_board (or_bb P col pt sq) sq (piece_code col pt)"

text \<open>
  The end of \<^verbatim>\<open>set_fen\<close>, after the pieces are placed and the side, the castling
  slots, the en-passant square and the counters are set:
  \<^verbatim>\<open>compute_hash(); history.clear(); history.push_back(hash);\<close>
  (\<^verbatim>\<open>update_occupied\<close> is called right after the pieces are placed; it reads the piece
  boards only.)
\<close>

definition finish_fen :: "Zobrist \<Rightarrow> Position \<Rightarrow> Position" where
  "finish_fen zk P =
     (let P1 = compute_hash zk (update_occupied P) in P1\<lparr>history := [hash P1]\<rparr>)"

text \<open>\<^verbatim>\<open>Position::init_startpos\<close>, without the hash.\<close>

definition startpos_pieces :: Position where
  "startpos_pieces =
     (let back = [ROOK, KNIGHT, BISHOP, QUEEN, KING, BISHOP, KNIGHT, ROOK];
          P1 = fold (\<lambda>f P. put_piece BLACK PAWN (make_square f 6)
                            (put_piece WHITE PAWN (make_square f 1) P)) [0..7] clear;
          P2 = fold (\<lambda>f P. put_piece BLACK (back ! nat f) (make_square f 7)
                            (put_piece WHITE (back ! nat f) (make_square f 0) P)) [0..7] P1
      in (update_occupied P2)\<lparr>castle_rook_sq := [7, 0, 63, 56], game_ply := 1\<rparr>)"

section \<open>Attack tables\<close>

text \<open>
  \<^verbatim>\<open>Bitboards::init\<close> fills \<^verbatim>\<open>knight_attacks[s]\<close>, \<^verbatim>\<open>king_attacks[s]\<close> and
  \<^verbatim>\<open>pawn_attacks[c][s]\<close> for the 64 squares; the functions below compute the entry of a
  square the way the initialisation does.
\<close>

definition on_board :: "int \<Rightarrow> int \<Rightarrow> bool" where
  "on_board nf nr = (nf \<ge> 0 \<and> nf < 8 \<and> nr \<ge> 0 \<and> nr < 8)"

definition knight_attacks :: "int \<Rightarrow> U64" where
  "knight_attacks s =
     (let f = file_of s; r = rank_of s in
      fold (\<lambda>(df, dr) a.
              (let nf = f + df; nr = r + dr
               in if on_board nf nr then a OR sq_bit (make_square nf nr) else a))
        [(- 2, - 1), (- 2, 1), (- 1, - 2), (- 1, 2), (1, - 2), (1, 2), (2, - 1), (2, 1)] 0)"

definition king_attacks :: "int \<Rightarrow> U64" where
  "king_attacks s =
     (let f = file_of s; r = rank_of s in
      fold (\<lambda>df a. fold (\<lambda>dr a.
              (if df = 0 \<and> dr = 0 then a
               else (let nf = f + df; nr = r + dr
                     in if on_board nf nr then a OR sq_bit (make_square nf nr) else a)))
            [- 1, 0, 1] a)
        [- 1, 0, 1] 0)"

definition pawn_attacks :: "Color \<Rightarrow> int \<Rightarrow> U64" where
  "pawn_attacks c s =
     (let f = file_of s; r = rank_of s in
      case c of
        WHITE \<Rightarrow>
          (if r < 7 then
             (if f > 0 then sq_bit (make_square (f - 1) (r + 1)) else 0) OR
             (if f < 7 then sq_bit (make_square (f + 1) (r + 1)) else 0)
           else 0)
      | BLACK \<Rightarrow>
          (if r > 0 then
             (if f > 0 then sq_bit (make_square (f - 1) (r - 1)) else 0) OR
             (if f < 7 then sq_bit (make_square (f + 1) (r - 1)) else 0)
           else 0))"

text \<open>
  One ray of a sliding piece: the loop
  \<^verbatim>\<open>{ U64 b = 1ULL << sq; attacks |= b; if (occ & b) break; }\<close> over the squares of the
  ray, nearest first.
\<close>

fun ray :: "U64 \<Rightarrow> int list \<Rightarrow> U64 \<Rightarrow> U64" where
  "ray occ [] attacks = attacks"
| "ray occ (s # ss) attacks =
     (if occ AND sq_bit s \<noteq> 0 then attacks OR sq_bit s else ray occ ss (attacks OR sq_bit s))"

text \<open>
  \<^verbatim>\<open>rook_attacks_magic\<close>, \<^verbatim>\<open>bishop_attacks_magic\<close> and \<^verbatim>\<open>queen_attacks_magic\<close>: in
  this version of the engine they scan the rays directly.
\<close>

definition rook_attacks_magic :: "int \<Rightarrow> U64 \<Rightarrow> U64" where
  "rook_attacks_magic s occ =
     (let f = file_of s; r = rank_of s;
          a1 = ray occ (map (\<lambda>rr. make_square f rr) [r + 1..7]) 0;
          a2 = ray occ (map (\<lambda>rr. make_square f rr) (rev [0..r - 1])) a1;
          a3 = ray occ (map (\<lambda>ff. make_square ff r) [f + 1..7]) a2
      in ray occ (map (\<lambda>ff. make_square ff r) (rev [0..f - 1])) a3)"

definition bishop_attacks_magic :: "int \<Rightarrow> U64 \<Rightarrow> U64" where
  "bishop_attacks_magic s occ =
     (let f = file_of s; r = rank_of s;
          a1 = ray occ (map (\<lambda>i. make_square (f + i) (r + i))
                         (takeWhile (\<lambda>i. f + i < 8 \<and> r + i < 8) [1..8])) 0;
          a2 = ray occ (map (\<lambda>i. make_square (f - i) (r + i))
                         (takeWhile (\<lambda>i. f - i \<ge> 0 \<and> r + i < 8) [1..8])) a1;
          a3 = ray occ (map (\<lambda>i. make_square (f + i) (r - i))
                         (takeWhile (\<lambda>i. f + i < 8 \<and> r - i \<ge> 0) [1..8])) a2
      in ray occ (map (\<lambda>i. make_square (f - i) (r - i))
                    (takeWhile (\<lambda>i. f - i \<ge> 0 \<and> r - i \<ge> 0) [1..8])) a3)"

definition queen_attacks_magic :: "int \<Rightarrow> U64 \<Rightarrow> U64" where
  "queen_attacks_magic s occ = rook_attacks_magic s occ OR bishop_attacks_magic s occ"

section \<open>Attacks on a square\<close>

definition attacks_to :: "Position \<Rightarrow> int \<Rightarrow> U64 \<Rightarrow> U64" where
  "attacks_to P s occ =
     (let a1 = pawn_attacks BLACK s AND bb P WHITE PAWN;
          a2 = a1 OR (pawn_attacks WHITE s AND bb P BLACK PAWN);
          a3 = a2 OR (knight_attacks s AND (bb P WHITE KNIGHT OR bb P BLACK KNIGHT));
          bishops = bb P WHITE BISHOP OR bb P BLACK BISHOP OR bb P WHITE QUEEN
                      OR bb P BLACK QUEEN;
          a4 = a3 OR (bishop_attacks_magic s occ AND bishops);
          rooks = bb P WHITE ROOK OR bb P BLACK ROOK OR bb P WHITE QUEEN OR bb P BLACK QUEEN;
          a5 = a4 OR (rook_attacks_magic s occ AND rooks)
      in a5 OR (king_attacks s AND (bb P WHITE KING OR bb P BLACK KING)))"


definition is_attacked :: "Position \<Rightarrow> int \<Rightarrow> Color \<Rightarrow> bool" where
  "is_attacked P s by =
     (let attackers = attacks_to P s (occupied P);
          by_pieces = fold (\<lambda>pt a. a OR bb P by pt) [PAWN..KING] 0
      in attackers AND by_pieces \<noteq> 0)"

definition mover_in_check :: "Position \<Rightarrow> bool" where
  "mover_in_check P =
     (let prev = opp (side P) in
      if bb P prev KING = 0 then False
      else is_attacked P (lsb (bb P prev KING)) (side P))"

section \<open>Move generation\<close>







section \<open>Predicates used to state the claims\<close>






section \<open>Static evaluation\<close>

text \<open>
  The classical evaluator \<^verbatim>\<open>Evaluation::evaluate\<close> (the engine built without
  \<^verbatim>\<open>USE_NNUE\<close>). Integer division in C++ truncates towards zero; \<open>cdiv\<close> is that
  division (the divisors of the evaluator are the constants 24, 2 and 4).
\<close>

definition cdiv :: "int \<Rightarrow> int \<Rightarrow> int" where
  "cdiv a b = sgn a * sgn b * (\<bar>a\<bar> div \<bar>b\<bar>)"

definition TOTAL_PHASE :: int where "TOTAL_PHASE = 24"

definition PIECE_VALUES :: "int list" where
  "PIECE_VALUES = [0, 100, 320, 330, 500, 900, 0]"

definition PST_PAWN :: "int list" where
  "PST_PAWN =
    [0,0,0,0,0,0,0,0, 50,50,50,50,50,50,50,50,
     10,10,20,30,30,20,10,10, 5,5,10,25,25,10,5,5,
     0,0,0,20,20,0,0,0, 5,-5,-10,0,0,-10,-5,5,
     5,10,10,-20,-20,10,10,5, 0,0,0,0,0,0,0,0]"

definition PST_KNIGHT :: "int list" where
  "PST_KNIGHT =
    [-50,-40,-30,-30,-30,-30,-40,-50, -40,-20,0,5,5,0,-20,-40,
     -30,5,10,15,15,10,5,-30, -30,0,15,20,20,15,0,-30,
     -30,5,15,20,20,15,5,-30, -30,0,10,15,15,10,0,-30,
     -40,-20,0,5,5,0,-20,-40, -50,-40,-30,-30,-30,-30,-40,-50]"

definition PST_BISHOP :: "int list" where
  "PST_BISHOP =
    [-20,-10,-10,-10,-10,-10,-10,-20, -10,5,0,0,0,0,5,-10,
     -10,10,10,10,10,10,10,-10, -10,0,10,10,10,10,0,-10,
     -10,5,5,10,10,5,5,-10, -10,0,5,10,10,5,0,-10,
     -10,0,0,0,0,0,0,-10, -20,-10,-10,-10,-10,-10,-10,-20]"

definition PST_ROOK :: "int list" where
  "PST_ROOK =
    [0,0,0,5,5,0,0,0, -5,0,0,0,0,0,0,-5, -5,0,0,0,0,0,0,-5,
     -5,0,0,0,0,0,0,-5, -5,0,0,0,0,0,0,-5, -5,0,0,0,0,0,0,-5,
     5,10,10,10,10,10,10,5, 0,0,0,0,0,0,0,0]"

definition PST_QUEEN :: "int list" where
  "PST_QUEEN =
    [-20,-10,-10,-5,-5,-10,-10,-20, -10,0,5,0,0,0,0,-10,
     -10,5,5,5,5,5,0,-10, 0,0,5,5,5,5,0,-5,
     -5,0,5,5,5,5,0,-5, -10,0,5,5,5,5,0,-10,
     -10,0,0,0,0,0,0,-10, -20,-10,-10,-5,-5,-10,-10,-20]"

definition PST_KING_MG :: "int list" where
  "PST_KING_MG =
    [20,30,10,0,0,10,30,20, 20,20,0,0,0,0,20,20,
     -10,-20,-20,-20,-20,-20,-20,-10, -20,-30,-30,-40,-40,-30,-30,-20,
     -30,-40,-40,-50,-50,-40,-40,-30, -30,-40,-40,-50,-50,-40,-40,-30,
     -30,-40,-40,-50,-50,-40,-40,-30, -30,-40,-40,-50,-50,-40,-40,-30]"

definition PST_KING_EG :: "int list" where
  "PST_KING_EG =
    [-50,-30,-30,-30,-30,-30,-30,-50, -30,-30,0,0,0,0,-30,-30,
     -30,-10,20,30,30,20,-10,-30, -30,-10,30,40,40,30,-10,-30,
     -30,-10,30,40,40,30,-10,-30, -30,-10,20,30,30,20,-10,-30,
     -30,-20,-10,0,0,-10,-20,-30, -50,-40,-30,-20,-20,-30,-40,-50]"

text \<open>\<^verbatim>\<open>0x0101010101010101ULL << f\<close>: the squares of file \<open>f\<close>.\<close>

definition file_mask :: "int \<Rightarrow> U64" where
  "file_mask f = push_bit (nat f) 0x0101010101010101"

subsection \<open>Queries of the position\<close>

text \<open>
  The loop of \<^verbatim>\<open>is_repetition\<close>:
  \<^verbatim>\<open>for (int i = size - 2; i >= 0 && c < count; i -= 2)
     { if (history[i] == hash) c++; if (c >= count) return true; }\<close>
\<close>

function repetition_loop :: "U64 list \<Rightarrow> U64 \<Rightarrow> int \<Rightarrow> int \<Rightarrow> int \<Rightarrow> bool" where
  "repetition_loop hist h count i c =
     (if i \<ge> 0 \<and> c < count then
        (let c' = (if hist ! nat i = h then c + 1 else c)
         in if c' \<ge> count then True else repetition_loop hist h count (i - 2) c')
      else False)"
  by pat_completeness auto
termination
  by (relation "measure (\<lambda>(hist, h, count, i, c). nat (i + 1))") auto

declare repetition_loop.simps [simp del]

definition is_repetition :: "Position \<Rightarrow> int \<Rightarrow> bool" where
  "is_repetition P count =
     repetition_loop (history P) (hash P) count (int (length (history P)) - 2) 0"

definition game_phase :: "Position \<Rightarrow> int" where
  "game_phase P =
     min (fold (\<lambda>c phase. phase + popcount (bb P c KNIGHT) * 1 + popcount (bb P c BISHOP) * 1
                              + popcount (bb P c ROOK) * 2 + popcount (bb P c QUEEN) * 4)
            [WHITE, BLACK] 0)
         TOTAL_PHASE"

definition is_endgame :: "Position \<Rightarrow> bool" where
  "is_endgame P = (game_phase P < 12)"

subsection \<open>Helpers of the evaluator\<close>

definition is_passed_pawn :: "Position \<Rightarrow> int \<Rightarrow> Color \<Rightarrow> bool" where
  "is_passed_pawn P sq c =
     (let f = file_of sq; r = rank_of sq in
      list_all (\<lambda>df.
          (let nf = f + df in
           if nf < 0 \<or> nf > 7 then True
           else
             list_all (\<lambda>nr.
                 (let pc = piece_on P (make_square nf nr)
                  in \<not> (pc \<noteq> 0 \<and> pc AND 7 = PAWN \<and> drop_bit 3 pc \<noteq> color_int c)))
               [(if c = WHITE then r + 1 else 0)..(if c = WHITE then 7 else r - 1)]))
        [- 1, 0, 1])"

definition mobility_bonus :: "int \<Rightarrow> int \<Rightarrow> int" where
  "mobility_bonus pt cnt =
     [[0,0,0,0,0,0,0], [0,5,10,15,20,25,30], [0,10,20,30,40,50,60],
      [0,8,16,24,32,40,48], [0,6,12,18,24,30,36], [0,4,8,12,16,20,24], [0,0,0,0,0,0,0]]
       ! nat pt ! nat (min cnt 6)"

text \<open>
  The king's square as the evaluator computes it:
  \<^verbatim>\<open>pos.bb(c, KING) ? lsb(pos.bb(c, KING)) : NO_SQUARE\<close>
\<close>

definition king_sq_or_none :: "Position \<Rightarrow> Color \<Rightarrow> int" where
  "king_sq_or_none P c = (if bb P c KING \<noteq> 0 then lsb (bb P c KING) else - 1)"

definition outpost_bonus :: "Position \<Rightarrow> int \<Rightarrow> Color \<Rightarrow> int" where
  "outpost_bonus P sq c =
     (if pawn_attacks c sq AND bb P c PAWN = 0 then 0
      else
        (let safe = (pawn_attacks (opp c) sq AND bb P (opp c) PAWN = 0);
             r = rank_of sq;
             base = 20;
             rank_bonus = (if c = WHITE then max 0 (r - 4) * 5 else max 0 (3 - r) * 5);
             safety = (if safe then 10 else 0);
             ksq = king_sq_or_none P (opp c);
             king_dist =
               (if ksq \<noteq> - 1 \<and>
                   max \<bar>file_of ksq - file_of sq\<bar> \<bar>rank_of ksq - r\<bar> \<le> 2 then 5 else 0)
         in base + rank_bonus + safety + king_dist))"

definition king_safety :: "Position \<Rightarrow> Color \<Rightarrow> int" where
  "king_safety P c =
     (if bb P c KING = 0 then 0
      else
        (let ksq = lsb (bb P c KING); kf = file_of ksq; kr = rank_of ksq;
             s1 = fold (\<lambda>df safety.
                    (let f = kf + df in
                     if f < 0 \<or> f > 7 then safety
                     else fold (\<lambda>dr safety.
                            (let r = (if c = WHITE then kr + dr else kr - dr) in
                             if r < 0 \<or> r > 7 then safety
                             else (let pc = piece_on P (make_square f r) in
                                   if pc \<noteq> 0 \<and> pc AND 7 = PAWN \<and> drop_bit 3 pc = color_int c
                                   then safety + (20 - dr * 5) else safety)))
                          [1, 2] safety))
                  [- 1, 0, 1] 0;
             s2 = fold (\<lambda>s safety.
                    (let sf = file_of s; sr = rank_of s in
                     if \<bar>sf - kf\<bar> \<le> 1 \<and> \<bar>sr - kr\<bar> \<le> 3
                     then safety - (4 - \<bar>sr - kr\<bar>) * 5 else safety))
                  (bb_squares (bb P (opp c) PAWN)) s1
         in fold (\<lambda>df safety.
                    (let f = kf + df in
                     if f < 0 \<or> f > 7 then safety
                     else if bb P c PAWN AND file_mask f = 0 then safety - 15 else safety))
              [- 1, 0, 1] s2))"

definition space_bonus :: "Position \<Rightarrow> Color \<Rightarrow> int" where
  "space_bonus P c =
     (let half = (if c = WHITE then 0xFFFFFFFF00000000 else 0x00000000FFFFFFFF :: U64);
          occ = occupied P;
          enemy_pawn_att = fold (\<lambda>s a. a OR pawn_attacks (opp c) s)
                             (bb_squares (bb P (opp c) PAWN)) 0;
          our_pieces = bb P c KNIGHT OR bb P c BISHOP OR bb P c ROOK OR bb P c QUEEN;
          our_att = fold (\<lambda>s a.
                      (let pt = piece_on P s AND 7 in
                       if pt = KNIGHT then a OR knight_attacks s
                       else if pt = BISHOP then a OR bishop_attacks_magic s occ
                       else if pt = ROOK then a OR rook_attacks_magic s occ
                       else if pt = QUEEN then a OR queen_attacks_magic s occ
                       else a))
                     (bb_squares our_pieces) 0
      in popcount (our_att AND half AND NOT enemy_pawn_att) * 10)"

definition imbalance :: "Position \<Rightarrow> int" where
  "imbalance P =
     (let wm = popcount (bb P WHITE KNIGHT) + popcount (bb P WHITE BISHOP);
          bm = popcount (bb P BLACK KNIGHT) + popcount (bb P BLACK BISHOP);
          wr = popcount (bb P WHITE ROOK); br = popcount (bb P BLACK ROOK);
          wq = popcount (bb P WHITE QUEEN); bq = popcount (bb P BLACK QUEEN)
      in (wm - bm) * 15 + (wr - br) * 20 + (wq - bq) * 40)"

text \<open>The union of an attack table over the squares of a bitboard.\<close>

definition attacks_of :: "(int \<Rightarrow> U64) \<Rightarrow> U64 \<Rightarrow> U64" where
  "attacks_of att b = fold (\<lambda>s a. a OR att s) (bb_squares b) 0"

definition threats :: "Position \<Rightarrow> int" where
  "threats P =
     (let occ = occupied P;
          white_pawn_attacks = attacks_of (pawn_attacks WHITE) (bb P WHITE PAWN);
          black_pawn_attacks = attacks_of (pawn_attacks BLACK) (bb P BLACK PAWN);
          white_minor_attacks =
            attacks_of knight_attacks (bb P WHITE KNIGHT) OR
            attacks_of (\<lambda>s. bishop_attacks_magic s occ) (bb P WHITE BISHOP);
          black_minor_attacks =
            attacks_of knight_attacks (bb P BLACK KNIGHT) OR
            attacks_of (\<lambda>s. bishop_attacks_magic s occ) (bb P BLACK BISHOP);
          white_rook_attacks = attacks_of (\<lambda>s. rook_attacks_magic s occ) (bb P WHITE ROOK);
          black_rook_attacks = attacks_of (\<lambda>s. rook_attacks_magic s occ) (bb P BLACK ROOK);
          white_queen_attacks = attacks_of (\<lambda>s. queen_attacks_magic s occ) (bb P WHITE QUEEN);
          black_queen_attacks = attacks_of (\<lambda>s. queen_attacks_magic s occ) (bb P BLACK QUEEN);
          white_attacks = white_pawn_attacks OR white_minor_attacks OR white_rook_attacks
                            OR white_queen_attacks;
          black_attacks = black_pawn_attacks OR black_minor_attacks OR black_rook_attacks
                            OR black_queen_attacks;
          white_pieces = bb P WHITE KNIGHT OR bb P WHITE BISHOP OR bb P WHITE ROOK
                           OR bb P WHITE QUEEN;
          black_pieces = bb P BLACK KNIGHT OR bb P BLACK BISHOP OR bb P BLACK ROOK
                           OR bb P BLACK QUEEN;
          s1 = fold (\<lambda>s score. score - cdiv (PIECE_VALUES ! nat (piece_on P s AND 7)) 2)
                 (bb_squares (white_pieces AND black_pawn_attacks)) 0;
          s2 = fold (\<lambda>s score. score + cdiv (PIECE_VALUES ! nat (piece_on P s AND 7)) 2)
                 (bb_squares (black_pieces AND white_pawn_attacks)) s1;
          s3 = fold (\<lambda>s score. score - cdiv (PIECE_VALUES ! nat (piece_on P s AND 7)) 4)
                 (bb_squares (white_pieces AND black_minor_attacks)) s2;
          s4 = fold (\<lambda>s score. score + cdiv (PIECE_VALUES ! nat (piece_on P s AND 7)) 4)
                 (bb_squares (black_pieces AND white_minor_attacks)) s3;
          undefended_white = white_pieces AND NOT white_attacks;
          undefended_black = black_pieces AND NOT black_attacks;
          white_threats = black_attacks AND undefended_white;
          black_threats = white_attacks AND undefended_black;
          s5 = s4 + popcount white_threats * 10 - popcount black_threats * 10;
          s6 = (if bb P WHITE QUEEN AND black_attacks \<noteq> 0 then s5 - 50 else s5);
          s7 = (if bb P BLACK QUEEN AND white_attacks \<noteq> 0 then s6 + 50 else s6);
          s8 = fold (\<lambda>s score.
                  (if bb P WHITE PAWN AND file_mask (file_of s) = 0 then
                     (if bb P BLACK PAWN AND file_mask (file_of s) = 0 then score + 15
                      else score + 10)
                   else score))
                 (bb_squares (bb P WHITE ROOK)) s7;
          s9 = fold (\<lambda>s score.
                  (if bb P BLACK PAWN AND file_mask (file_of s) = 0 then
                     (if bb P WHITE PAWN AND file_mask (file_of s) = 0 then score - 15
                      else score - 10)
                   else score))
                 (bb_squares (bb P BLACK ROOK)) s8
      in cdiv (s9 * game_phase P) TOTAL_PHASE)"

subsection \<open>The terms of evaluate\<close>

text \<open>
  \<^verbatim>\<open>evaluate\<close> adds its terms to one running \<^verbatim>\<open>score\<close>, from White's point of view.
  Each block of the function is a definition below that gives what the block adds;
  \<open>signed c v\<close> is \<^verbatim>\<open>if (c == WHITE) score += v; else score -= v;\<close>.
\<close>

definition signed :: "Color \<Rightarrow> int \<Rightarrow> int" where
  "signed c v = (if c = WHITE then v else - v)"

text \<open>Material and piece-square tables; Black reads the tables at \<open>63 - sq\<close>.\<close>

definition pst_value :: "int \<Rightarrow> Color \<Rightarrow> int \<Rightarrow> int \<Rightarrow> int" where
  "pst_value phase c pt sq =
     (let idx = (if c = WHITE then sq else 63 - sq);
          mg_w = phase; eg_w = TOTAL_PHASE - phase;
          (mg, eg) =
            (if pt = PAWN then (PST_PAWN ! nat idx, PST_PAWN ! nat idx)
             else if pt = KNIGHT then (PST_KNIGHT ! nat idx, PST_KNIGHT ! nat idx)
             else if pt = BISHOP then (PST_BISHOP ! nat idx, PST_BISHOP ! nat idx)
             else if pt = ROOK then (PST_ROOK ! nat idx, PST_ROOK ! nat idx)
             else if pt = QUEEN then (PST_QUEEN ! nat idx, PST_QUEEN ! nat idx)
             else if pt = KING then (PST_KING_MG ! nat idx, PST_KING_EG ! nat idx)
             else (0, 0));
          pst = cdiv (mg * mg_w + eg * eg_w) TOTAL_PHASE
      in pst + PIECE_VALUES ! nat pt)"

definition eval_material :: "Position \<Rightarrow> int" where
  "eval_material P =
     fold (\<lambda>c score. fold (\<lambda>pt score.
             fold (\<lambda>sq score. score + signed c (pst_value (game_phase P) c pt sq))
               (bb_squares (bb P c pt)) score)
           [PAWN..KING] score)
       [WHITE, BLACK] 0"

definition piece_mobility :: "Position \<Rightarrow> int \<Rightarrow> int \<Rightarrow> int" where
  "piece_mobility P pt fromsq =
     (let attacks =
            (if pt = KNIGHT then knight_attacks fromsq
             else if pt = BISHOP then bishop_attacks_magic fromsq (occupied P)
             else if pt = ROOK then rook_attacks_magic fromsq (occupied P)
             else queen_attacks_magic fromsq (occupied P))
      in mobility_bonus pt (popcount (attacks AND NOT (occupied P))))"

definition eval_mobility :: "Position \<Rightarrow> int" where
  "eval_mobility P =
     (let (mob_w, mob_b) =
            fold (\<lambda>pt (mob_w, mob_b).
                   (fold (\<lambda>fromsq m. m + piece_mobility P pt fromsq)
                      (bb_squares (bb P WHITE pt)) mob_w,
                    fold (\<lambda>fromsq m. m + piece_mobility P pt fromsq)
                      (bb_squares (bb P BLACK pt)) mob_b))
              [KNIGHT..QUEEN] (0, 0)
      in mob_w - mob_b)"

text \<open>The pawn-structure blocks for one colour, in the order of the source.\<close>

definition pawns_doubled :: "Color \<Rightarrow> U64 \<Rightarrow> int" where
  "pawns_doubled c pawns =
     fold (\<lambda>f score. (let cnt = popcount (pawns AND file_mask f)
                        in if cnt > 1 then score - signed c ((cnt - 1) * 20) else score))
       [0..7] 0"

definition pawns_isolated :: "Color \<Rightarrow> U64 \<Rightarrow> int" where
  "pawns_isolated c pawns =
     fold (\<lambda>sq score.
             (let f = file_of sq;
                  iso = \<not> ((f > 0 \<and> pawns AND file_mask (f - 1) \<noteq> 0) \<or>
                            (f < 7 \<and> pawns AND file_mask (f + 1) \<noteq> 0))
              in if iso then score - signed c 15 else score))
       (bb_squares pawns) 0"

definition pawns_backward :: "Position \<Rightarrow> Color \<Rightarrow> U64 \<Rightarrow> int" where
  "pawns_backward P c pawns =
     fold (\<lambda>sq score.
             (let r = rank_of sq in
              if c = WHITE \<and> r < 6 then
                (let ahead = make_square (file_of sq) (r + 1) in
                 if piece_on P ahead = 0 \<and> pawn_attacks (opp c) ahead AND bb P (opp c) PAWN \<noteq> 0
                 then score - signed c 20 else score)
              else if c = BLACK \<and> r > 1 then
                (let ahead = make_square (file_of sq) (r - 1) in
                 if piece_on P ahead = 0 \<and> pawn_attacks (opp c) ahead AND bb P (opp c) PAWN \<noteq> 0
                 then score - signed c 20 else score)
              else score))
       (bb_squares pawns) 0"

definition pawns_connected :: "Color \<Rightarrow> U64 \<Rightarrow> int" where
  "pawns_connected c pawns =
     fold (\<lambda>sq score. if pawn_attacks c sq AND pawns \<noteq> 0 then score + signed c 10 else score)
       (bb_squares pawns) 0"

definition pawns_file_pairs :: "Color \<Rightarrow> U64 \<Rightarrow> int" where
  "pawns_file_pairs c pawns =
     fold (\<lambda>f score. if popcount (pawns AND file_mask f) \<ge> 2 then score + signed c 15
                       else score)
       [0..7] 0"

definition passed_bonus :: "Position \<Rightarrow> Color \<Rightarrow> int \<Rightarrow> int" where
  "passed_bonus P c sq =
     (let r = rank_of sq;
          adv = (if c = WHITE then r else 7 - r);
          b1 = 30 + adv * adv * 4;
          b2 = (if file_of sq = 0 \<or> file_of sq = 7 then b1 + 15 else b1);
          b3 = (if (c = WHITE \<and> r = 6) \<or> (c = BLACK \<and> r = 1) then b2 + 30 else b2);
          ksq = king_sq_or_none P (opp c)
      in if ksq \<noteq> - 1 \<and> max \<bar>file_of ksq - file_of sq\<bar> \<bar>rank_of ksq - r\<bar> < 3
         then b3 + 10 else b3)"

definition pawns_passed :: "Position \<Rightarrow> Color \<Rightarrow> U64 \<Rightarrow> int" where
  "pawns_passed P c pawns =
     fold (\<lambda>sq score. if is_passed_pawn P sq c then score + signed c (passed_bonus P c sq)
                        else score)
       (bb_squares pawns) 0"

definition eval_pawns :: "Position \<Rightarrow> int" where
  "eval_pawns P =
     fold (\<lambda>c score.
             (let pawns = bb P c PAWN
              in score + pawns_doubled c pawns + pawns_isolated c pawns
                   + pawns_backward P c pawns + pawns_connected c pawns
                   + pawns_file_pairs c pawns + pawns_passed P c pawns))
       [WHITE, BLACK] 0"

definition eval_outposts :: "Position \<Rightarrow> int" where
  "eval_outposts P =
     fold (\<lambda>c score.
             fold (\<lambda>sq score. score + signed c (outpost_bonus P sq c))
               (bb_squares (bb P c BISHOP))
               (fold (\<lambda>sq score. score + signed c (outpost_bonus P sq c))
                  (bb_squares (bb P c KNIGHT)) score))
       [WHITE, BLACK] 0"

definition eval_rim_knights :: "Position \<Rightarrow> int" where
  "eval_rim_knights P =
     fold (\<lambda>c score.
             fold (\<lambda>sq score.
                     if file_of sq = 0 \<or> file_of sq = 7
                     then score - signed c (cdiv (20 * game_phase P) TOTAL_PHASE) else score)
               (bb_squares (bb P c KNIGHT)) score)
       [WHITE, BLACK] 0"

definition eval_long_diagonals :: "Position \<Rightarrow> int" where
  "eval_long_diagonals P =
     fold (\<lambda>c score.
             fold (\<lambda>sq score.
                     (let f = file_of sq; r = rank_of sq in
                      if f = r \<or> f + r = 7 then
                        (let pawns = bb P WHITE PAWN OR bb P BLACK PAWN;
                             blockers = popcount (bishop_attacks_magic sq pawns AND pawns);
                             b = cdiv ((20 - 5 * blockers) * game_phase P) TOTAL_PHASE
                         in if b > 0 then score + signed c b else score)
                      else score))
               (bb_squares (bb P c BISHOP)) score)
       [WHITE, BLACK] 0"

definition eval_queen_files :: "Position \<Rightarrow> int" where
  "eval_queen_files P =
     fold (\<lambda>c score.
             fold (\<lambda>sq score.
                     if (bb P WHITE PAWN OR bb P BLACK PAWN) AND file_mask (file_of sq) = 0
                     then score + signed c (cdiv (10 * game_phase P) TOTAL_PHASE) else score)
               (bb_squares (bb P c QUEEN)) score)
       [WHITE, BLACK] 0"

definition eval_bishop_pair :: "Position \<Rightarrow> int" where
  "eval_bishop_pair P =
     (if popcount (bb P WHITE BISHOP) \<ge> 2 then 50 else 0)
       - (if popcount (bb P BLACK BISHOP) \<ge> 2 then 50 else 0)"

definition eval_seventh :: "Position \<Rightarrow> int" where
  "eval_seventh P =
     (let seventh = (if side P = WHITE then push_bit 48 0xFF else push_bit 8 0xFF :: U64)
      in popcount (bb P WHITE ROOK AND seventh) * 30
           - popcount (bb P BLACK ROOK AND seventh) * 30)"

definition eval_king_safety :: "Position \<Rightarrow> int" where
  "eval_king_safety P =
     (if \<not> is_endgame P then king_safety P WHITE - king_safety P BLACK else 0)"

definition eval_space :: "Position \<Rightarrow> int" where
  "eval_space P =
     cdiv ((space_bonus P WHITE - space_bonus P BLACK) * game_phase P) TOTAL_PHASE"

text \<open>Weak and strong squares.\<close>

definition eval_squares :: "Position \<Rightarrow> int" where
  "eval_squares P =
     (let occ = occupied P;
          w_att = attacks_of knight_attacks (bb P WHITE KNIGHT)
                    OR attacks_of (\<lambda>s. bishop_attacks_magic s occ)
                         (bb P WHITE BISHOP OR bb P WHITE QUEEN)
                    OR attacks_of (\<lambda>s. rook_attacks_magic s occ) (bb P WHITE ROOK)
                    OR (if bb P WHITE KING \<noteq> 0 then king_attacks (lsb (bb P WHITE KING)) else 0);
          b_att = attacks_of knight_attacks (bb P BLACK KNIGHT)
                    OR attacks_of (\<lambda>s. bishop_attacks_magic s occ)
                         (bb P BLACK BISHOP OR bb P BLACK QUEEN)
                    OR attacks_of (\<lambda>s. rook_attacks_magic s occ) (bb P BLACK ROOK)
                    OR (if bb P BLACK KING \<noteq> 0 then king_attacks (lsb (bb P BLACK KING)) else 0);
          empty_bb = NOT occ;
          weak_w = b_att AND NOT w_att AND empty_bb;
          weak_b = w_att AND NOT b_att AND empty_bb;
          strong_w = w_att AND NOT b_att AND empty_bb;
          strong_b = b_att AND NOT w_att AND empty_bb;
          central = sq_bit (make_square 3 3) OR sq_bit (make_square 4 3)
                      OR sq_bit (make_square 3 4) OR sq_bit (make_square 4 4);
          ws = popcount (weak_w AND central) * 20 + popcount (weak_w AND NOT central) * 5
                 - (popcount (weak_b AND central) * 20 + popcount (weak_b AND NOT central) * 5);
          ss = popcount (strong_w AND central) * 15 + popcount (strong_w AND NOT central) * 3
                 - (popcount (strong_b AND central) * 15 + popcount (strong_b AND NOT central) * 3)
      in cdiv ((ws + ss) * game_phase P) TOTAL_PHASE)"

definition eval_initiative :: "Position \<Rightarrow> int" where
  "eval_initiative P =
     (if \<not> is_endgame P then
        (let our = popcount (bb P WHITE KNIGHT OR bb P WHITE BISHOP OR bb P WHITE ROOK
                               OR bb P WHITE QUEEN);
             their = popcount (bb P BLACK KNIGHT OR bb P BLACK BISHOP OR bb P BLACK ROOK
                                 OR bb P BLACK QUEEN)
         in if \<bar>our - their\<bar> \<le> 1 then
              (let ks_w = king_safety P WHITE; ks_b = king_safety P BLACK;
                   ks_diff = (if side P = WHITE then ks_w - ks_b else ks_b - ks_w)
               in if ks_diff > 0 then cdiv ks_diff 2 else 0)
            else 0)
      else 0)"

definition eval_trapped_bishops :: "Position \<Rightarrow> int" where
  "eval_trapped_bishops P =
     (let t = cdiv (50 * game_phase P) TOTAL_PHASE;
          wpawns = bb P WHITE PAWN; bpawns = bb P BLACK PAWN
      in (if bb P WHITE BISHOP AND sq_bit (make_square 0 1) \<noteq> 0 \<and>
             wpawns AND sq_bit (make_square 1 2) \<noteq> 0 then - t else 0)
         + (if bb P WHITE BISHOP AND sq_bit (make_square 7 1) \<noteq> 0 \<and>
               wpawns AND sq_bit (make_square 6 2) \<noteq> 0 then - t else 0)
         + (if bb P BLACK BISHOP AND sq_bit (make_square 0 6) \<noteq> 0 \<and>
               bpawns AND sq_bit (make_square 1 5) \<noteq> 0 then t else 0)
         + (if bb P BLACK BISHOP AND sq_bit (make_square 7 6) \<noteq> 0 \<and>
               bpawns AND sq_bit (make_square 6 5) \<noteq> 0 then t else 0))"

text \<open>
  The score from White's point of view before the contempt term, and \<^verbatim>\<open>evaluate\<close>
  itself: the trivial draws first, then the sum of the terms, the contempt, and the sign
  for the side to move. \<open>contempt\<close> is the member of the class (0 unless set by the
  option).
\<close>

definition white_score :: "Position \<Rightarrow> int" where
  "white_score P =
     eval_material P + eval_mobility P + eval_pawns P + eval_outposts P + eval_rim_knights P
       + eval_long_diagonals P + eval_queen_files P + eval_bishop_pair P + eval_seventh P
       + eval_king_safety P + eval_space P + imbalance P + eval_squares P + eval_initiative P
       + eval_trapped_bishops P + threats P"

definition trivial_draw :: "Position \<Rightarrow> bool" where
  "trivial_draw P =
     (if fifty P \<ge> 100 \<or> is_repetition P 2 then True
      else
        (let pieces = popcount (occupied P) in
         if pieces \<le> 3 then
           (if pieces = 2 then True
            else if pieces = 3 then
              (if popcount (bb P WHITE BISHOP OR bb P BLACK BISHOP) = 1 then True
               else if popcount (bb P WHITE KNIGHT OR bb P BLACK KNIGHT) = 1 then True
               else False)
            else False)
         else False))"

definition evaluate :: "int \<Rightarrow> Position \<Rightarrow> int" where
  "evaluate contempt P =
     (if trivial_draw P then 0
      else
        (let score0 = white_score P;
             dyn_contempt = cdiv (contempt * (24 - game_phase P)) 24;
             score = (if dyn_contempt \<noteq> 0 \<and> \<not> is_endgame P \<and> \<bar>score0\<bar> < 200
                      then score0 + dyn_contempt else score0)
         in if side P = WHITE then score else - score))"

subsection \<open>The mirror of a position\<close>

text \<open>
  The mirror image of a position: every piece changes colour and moves to the square of
  the same file on the opposite rank (\<open>sq XOR 56\<close>), and the other side is to move.
  A mailbox cell is \<^verbatim>\<open>(colour << 3) | type\<close>; a cell of type \<open>NO_PIECE\<close> holds no piece
  and is kept.
  The en-passant square and the castling slots are mirrored with the pieces, the
  counters are kept, and hash and history are set as \<^verbatim>\<open>set_fen\<close> sets them for a new
  position.
\<close>

definition flip_sq :: "int \<Rightarrow> int" where
  "flip_sq s = s XOR 56"

definition flip_bb :: "U64 \<Rightarrow> U64" where
  "flip_bb b = fold (\<lambda>s a. if bit b (nat s) then a OR sq_bit (flip_sq s) else a) [0..63] 0"

definition flip_piece :: "int \<Rightarrow> int" where
  "flip_piece pc = (if pc AND 7 = NO_PIECE then pc else pc XOR 8)"

definition flip_slot :: "int \<Rightarrow> int" where
  "flip_slot s = (if s = - 1 then - 1 else flip_sq s)"

definition mirror :: "Zobrist \<Rightarrow> Position \<Rightarrow> Position" where
  "mirror zk P =
     finish_fen zk
       (P\<lparr>pieces := map (\<lambda>i. flip_bb (pieces P ! ((i + 7) mod 14))) [0..<14],
          board := map (\<lambda>s. flip_piece (board P ! nat (flip_sq (int s)))) [0..<64],
          side := opp (side P),
          ep_square := flip_slot (ep_square P),
          castle_rook_sq := map (\<lambda>i. flip_slot (castle_rook_sq P ! ((i + 2) mod 4))) [0..<4]\<rparr>)"

text \<open>
  What the symmetry of the evaluator needs of a position: the arrays have their sizes,
  the occupancy board is the union of the piece boards (as \<^verbatim>\<open>update_occupied\<close> leaves
  it), and neither side has more than one king.
\<close>

definition boards_ok :: "Position \<Rightarrow> bool" where
  "boards_ok P =
     (length (pieces P) = 14 \<and> length (board P) = 64 \<and>
      occupied P = occupied (update_occupied P) \<and>
      popcount (bb P WHITE KING) \<le> 1 \<and> popcount (bb P BLACK KING) \<le> 1)"

text \<open>
  The entry of \<open>PST_QUEEN\<close> that the evaluator reads for every queen on the board is
  the same as the entry of the square on the same rank of the table and the opposite
  file (\<open>idx XOR 7\<close>).
\<close>

definition queens_on_symmetric_squares :: "Position \<Rightarrow> bool" where
  "queens_on_symmetric_squares P =
     list_all (\<lambda>c. list_all (\<lambda>sq.
         (let idx = (if c = WHITE then sq else 63 - sq)
          in PST_QUEEN ! nat idx = PST_QUEEN ! nat (idx XOR 7)))
       (bb_squares (bb P c QUEEN))) [WHITE, BLACK]"

text \<open>The mirror of a square as an index of a bit.\<close>

definition flip_idx :: "nat \<Rightarrow> nat" where
  "flip_idx n = nat (flip_sq (int n))"

section \<open>Concrete inputs used by the closed theorems\<close>

text \<open>
  A two-bucket table in its third search: bucket 0 holds an entry of depth 9 written in
  search 1, bucket 1 an entry of depth 12 written in the current search.
\<close>

definition ex_resident :: TTEntry where
  "ex_resident = \<lparr>e_key = 4, e_depth = 9, e_score = 40, e_bound = BOUND_EXACT,
                   e_move = 796, e_age = 1, e_dtz = 0\<rparr>"

definition ex_other :: TTEntry where
  "ex_other = \<lparr>e_key = 7, e_depth = 12, e_score = - 15, e_bound = BOUND_LOWER,
                e_move = 1234, e_age = 3, e_dtz = 0\<rparr>"

definition ex_tt :: TranspositionTable where
  "ex_tt = \<lparr>table = [ex_resident, ex_other], age = 3\<rparr>"

text \<open>
  A node in check at ply 3 whose two generated moves both leave the king in check, and
  the same for a quiescence node.
\<close>

definition ex_node :: Node where
  "ex_node = \<lparr>nd_depth = 2, nd_alpha = - 50, nd_beta = 50, nd_ply = 3, nd_cut = True,
               nd_in_check = True, nd_static_eval = 0, nd_tt_move = NO_MOVE,
               nd_improving = False, nd_total_threads = 1, nd_idle = False,
               nd_split = (- INF_VALUE, NO_MOVE)\<rparr>"

definition ex_scored :: "ScoredMove list" where
  "ex_scored =
     [\<lparr>sm_move = 3893, sm_score = 0, sm_target = 0, sm_mover_in_check = True,
       sm_value = 0, sm_stop = False, sm_mc_value = 0\<rparr>,
      \<lparr>sm_move = 3892, sm_score = 0, sm_target = 0, sm_mover_in_check = True,
       sm_value = 0, sm_stop = False, sm_mc_value = 0\<rparr>]"

definition ex_qnode :: QNode where
  "ex_qnode = \<lparr>q_alpha = - 50, q_beta = 50, q_ply = 3, q_depth = 0, q_eval = 0, q_nodes = 17,
                q_stop_search = False, q_stop_early = False, q_node_limit = 0,
                q_repetition = False, q_tb_can_probe = False, q_dtz = 0,
                q_dtz_success = False, q_in_check = True\<rparr>"

text \<open>The same node at the depth limit of quiescence, with static evaluation 8.\<close>

definition ex_qnode_deep :: QNode where
  "ex_qnode_deep = ex_qnode\<lparr>q_depth := 8, q_eval := 8\<rparr>"

definition ex_qmoves :: "QMove list" where
  "ex_qmoves =
     [\<lparr>qm_target = 0, qm_see = 0, qm_mover_in_check = True, qm_value = 0\<rparr>,
      \<lparr>qm_target = 0, qm_see = 0, qm_mover_in_check = True, qm_value = 0\<rparr>]"

text \<open>
  A fixed table of keys, standing for the random keys of a run: the key of a piece on
  a square is \<open>64 * (7 * colour + type) + square + 1\<close>, followed by the side key and
  the castling and en-passant keys.
\<close>

definition ex_keys :: Zobrist where
  "ex_keys = \<lparr>z_pieces = (\<lambda>c pt sq. word_of_int (64 * (7 * color_int c + pt) + sq + 1)),
              z_side = 1000, z_castle = (\<lambda>i. word_of_int (1001 + i)),
              z_ep = (\<lambda>s. word_of_int (1100 + s))\<rparr>"

text \<open>
  \<^verbatim>\<open>4k2r/8/8/8/8/8/8/4K2R w Kk - 0 1\<close>: both sides may castle king-side; the white
  rook can take the rook on h8 with the move h1h8.
\<close>

definition ex_rook_pos :: Position where
  "ex_rook_pos =
     finish_fen ex_keys
       ((put_piece WHITE KING 4 (put_piece WHITE ROOK 7
          (put_piece BLACK KING 60 (put_piece BLACK ROOK 63 clear))))
        \<lparr>castle_rook_sq := [7, - 1, 63, - 1], chess960 := True, game_ply := 1\<rparr>)"

definition ex_h1h8 :: Move where
  "ex_h1h8 = make_move_sq 7 63"

text \<open>
  \<^verbatim>\<open>5k2/8/8/8/8/8/8/5K1R w K - 0 1\<close>: the white king stands on f1 and may castle with
  the rook on h1; the castling move takes the king to g1 and the rook to f1.
\<close>

definition ex_castle_pos :: Position where
  "ex_castle_pos =
     finish_fen ex_keys
       ((put_piece WHITE KING 5 (put_piece WHITE ROOK 7 (put_piece BLACK KING 61 clear)))
        \<lparr>castle_rook_sq := [7, - 1, - 1, - 1], chess960 := True, game_ply := 1\<rparr>)"

definition ex_castle :: Move where
  "ex_castle = make_move_sq 5 6 OR CASTLE_FLAG"

text \<open>
  \<^verbatim>\<open>4k3/8/8/8/3pP3/8/8/4K3 b - e3 0 1\<close>: White has just played e2e4, the en-passant
  square is e3.
\<close>

definition ex_ep_pos :: Position where
  "ex_ep_pos =
     finish_fen ex_keys
       ((put_piece WHITE KING 4 (put_piece WHITE PAWN 28
          (put_piece BLACK KING 60 (put_piece BLACK PAWN 27 clear))))
        \<lparr>side := BLACK, ep_square := 20, chess960 := True, game_ply := 1\<rparr>)"

text \<open>
  \<^verbatim>\<open>rnbqkbnr/pppppppp/8/8/4P3/8/PPPP1PPP/RNBQKBNR b KQkq e3 0 1\<close>: the start position
  after 1. e4, set up as \<^verbatim>\<open>set_fen\<close> does.
\<close>

definition ex_e4_pos :: Position where
  "ex_e4_pos =
     finish_fen ex_keys
       ((put_piece WHITE PAWN 28 (lift_piece startpos_pieces WHITE PAWN 12))
        \<lparr>side := BLACK, ep_square := 20\<rparr>)"

text \<open>
  \<^verbatim>\<open>4k3/8/8/8/8/8/4P3/4K3 w - - 0 1\<close>: White is a pawn up and to move.
\<close>

definition ex_pawn_pos :: Position where
  "ex_pawn_pos =
     finish_fen ex_keys
       ((put_piece WHITE KING 4 (put_piece WHITE PAWN 12 (put_piece BLACK KING 60 clear)))
        \<lparr>chess960 := True, game_ply := 1\<rparr>)"

section \<open>Theorems: transposition table\<close>

lemma ex_index_4: "tt_index ex_tt 4 = Some 0"
  by code_simp

lemma ex_index_9: "tt_index ex_tt 9 = Some 1"
  by code_simp

lemma ex_table_0: "table ex_tt ! 0 = ex_resident"
  by (simp add: ex_tt_def)

lemma ex_table_1: "table ex_tt ! 1 = ex_other"
  by (simp add: ex_tt_def)

text \<open>
  Claim C5, as the code has it. \<^verbatim>\<open>store\<close> writes the incoming entry, stamped with the
  current age, into bucket \<open>key mod N\<close>, unless the resident entry has the same key
  and a strictly greater depth; then the table is left as it is. The age of the
  resident is never read, and a resident with another key is replaced whatever its
  depth. No other bucket changes.
\<close>

theorem store_policy:
  assumes "tt_index tt key = Some idx"
  shows "store tt key depth score bound move dtz =
           Some (tt\<lparr>table := (table tt)[idx :=
             (if e_key (table tt ! idx) = key \<and> e_depth (table tt ! idx) > depth
              then table tt ! idx
              else \<lparr>e_key = key, e_depth = depth, e_score = score, e_bound = bound,
                    e_move = move, e_age = age tt, e_dtz = dtz\<rparr>)]\<rparr>)"
  using assms by (simp add: store_def Let_def)

text \<open>
  The rule at a concrete call: the resident of bucket 1 is deeper (12 against 4) and
  was written in the current search, but has another key, and is replaced.
\<close>

theorem store_policy_witness:
  "tt_index ex_tt 9 = Some 1 \<and>
   store ex_tt 9 4 0 BOUND_UPPER 0 0 =
     Some (ex_tt\<lparr>table := [ex_resident,
        \<lparr>e_key = 9, e_depth = 4, e_score = 0, e_bound = BOUND_UPPER, e_move = 0,
         e_age = 3, e_dtz = 0\<rparr>]\<rparr>)"
proof -
  have k: "e_key ex_other \<noteq> 9" "age ex_tt = 3" "(table ex_tt)[1 := x] = [ex_resident, x]" for x
    by (simp_all add: ex_tt_def ex_other_def)
  have "store ex_tt 9 4 0 BOUND_UPPER 0 0 =
     Some (ex_tt\<lparr>table := [ex_resident,
        \<lparr>e_key = 9, e_depth = 4, e_score = 0, e_bound = BOUND_UPPER, e_move = 0,
         e_age = 3, e_dtz = 0\<rparr>]\<rparr>)"
    unfolding store_policy [OF ex_index_9] ex_table_1 by (simp only: k if_False simp_thms)
  then show ?thesis using ex_index_9 by (rule_tac conjI)
qed

text \<open>
  Claim C5 as it is stated fails: the resident of bucket 0 has strictly greater depth
  (9 against 4) and an older age (1 against the current 3), the incoming entry has the
  same key, and \<^verbatim>\<open>store\<close> keeps the resident instead of replacing it.
\<close>

theorem store_keeps_older_deeper_resident:
  "tt_index ex_tt 4 = Some 0 \<and> table ex_tt ! 0 = ex_resident \<and>
   e_depth ex_resident > 4 \<and> e_age ex_resident < age ex_tt \<and>
   store ex_tt 4 4 0 BOUND_UPPER 0 0 = Some ex_tt"
proof -
  have a: "e_depth ex_resident > 4" "e_age ex_resident < age ex_tt" "e_key ex_resident = 4"
    by (simp_all add: ex_tt_def ex_resident_def)
  have "store ex_tt 4 4 0 BOUND_UPPER 0 0 = Some ex_tt"
    by (simp add: store_def ex_index_4 ex_table_0 a)
  with a ex_index_4 ex_table_0 show ?thesis by (intro conjI)
qed


text \<open>
  Claim C6. \<^verbatim>\<open>probe\<close> returns true exactly when the resident entry has the requested
  key, a depth of at least the requested one and a bound compatible with the window;
  whenever the key matches, hit or not, the stored score, move and dtz are written to
  the reference parameters.
\<close>

theorem probe_hit_iff:
  assumes "tt_index tt key = Some idx"
  shows "probe tt key depth alpha beta out =
           Some (if e_key (table tt ! idx) = key
                 then (e_depth (table tt ! idx) \<ge> depth \<and>
                         bound_compatible (table tt ! idx) alpha beta,
                       e_score (table tt ! idx), e_move (table tt ! idx), e_dtz (table tt ! idx))
                 else (False, out))"
  using assms
  by (cases "e_bound (table tt ! idx)") (simp_all add: probe_def bound_compatible_def Let_def)

text \<open>
  A hit at depth 8 and a depth miss at depth 10 on the same entry; both hand out the
  stored score 40, move 796 and dtz 0.
\<close>

theorem probe_hit_iff_witness:
  "tt_index ex_tt 4 = Some 0 \<and>
   probe ex_tt 4 8 (- 100) 100 (0, 0, 0) = Some (True, 40, 796, 0) \<and>
   probe ex_tt 4 10 (- 100) 100 (0, 0, 0) = Some (False, 40, 796, 0)"
proof -
  have r: "e_key ex_resident = 4" "e_depth ex_resident = 9" "e_score ex_resident = 40"
    "e_move ex_resident = 796" "e_dtz ex_resident = 0" "bound_compatible ex_resident (- 100) 100"
    by (simp_all add: ex_resident_def bound_compatible_def)
  have a: "probe ex_tt 4 8 (- 100) 100 (0, 0, 0) = Some (True, 40, 796, 0)"
    unfolding probe_hit_iff [OF ex_index_4] ex_table_0 by (simp add: r)
  have b: "probe ex_tt 4 10 (- 100) 100 (0, 0, 0) = Some (False, 40, 796, 0)"
    unfolding probe_hit_iff [OF ex_index_4] ex_table_0 by (simp add: r)
  from ex_index_4 a b show ?thesis by (intro conjI)
qed

text \<open>
  Claim C10. When the resident entry has another key, \<^verbatim>\<open>probe\<close> returns false and the
  reference parameters keep the values the caller put there (negamax seeds them with
  the static evaluation, \<^verbatim>\<open>NO_MOVE\<close> and 0).
\<close>

theorem probe_key_mismatch:
  assumes "tt_index tt key = Some idx" and "e_key (table tt ! idx) \<noteq> key"
  shows "probe tt key depth alpha beta out = Some (False, out)"
  using assms by (simp add: probe_def)

text \<open>
  A probe for key 9 finds key 7 in its bucket and leaves \<open>(23, NO_MOVE, 0)\<close> untouched.
\<close>

theorem probe_key_mismatch_witness:
  "tt_index ex_tt 9 = Some 1 \<and> e_key (table ex_tt ! 1) \<noteq> 9 \<and>
   probe ex_tt 9 5 (- 100) 100 (23, NO_MOVE, 0) = Some (False, 23, NO_MOVE, 0)"
proof -
  have k: "e_key (table ex_tt ! 1) \<noteq> 9"
    unfolding ex_table_1 by (simp add: ex_other_def)
  from ex_index_9 k probe_key_mismatch [OF ex_index_9 k, of 5 "- 100" 100 "(23, NO_MOVE, 0)"]
  show ?thesis by (intro conjI)
qed


section \<open>Theorems: search\<close>

text \<open>
  Claim C3 fails on the code. The singular-extension block is guarded by \<^verbatim>\<open>tt_hit\<close>,
  but every path with \<^verbatim>\<open>tt_hit\<close> true has already returned from negamax in the block
  \<^verbatim>\<open>if (tt_hit) { ... return tt_score; }\<close> above it. So for every input the singular
  search is not run and the depth leaves the stage unchanged.
\<close>

theorem singular_extension_never_runs:
  "singular_search_ran
     (negamax_tt_stage tt tb_can_probe tb_dtz search key depth alpha beta cur_ply excluded
        in_check static_eval) = False \<and>
   depth_after depth
     (negamax_tt_stage tt tb_can_probe tb_dtz search key depth alpha beta cur_ply excluded
        in_check static_eval) = depth"
proof (cases "probe tt key depth alpha beta (static_eval, NO_MOVE, 0)")
  case None
  then show ?thesis by (simp add: negamax_tt_stage_def)
next
  case (Some r)
  obtain tt_hit tt_score tt_move tt_dtz where r: "r = (tt_hit, tt_score, tt_move, tt_dtz)"
    by (cases r) auto
  show ?thesis
  proof (cases tt_hit)
    case True
    then show ?thesis by (simp add: negamax_tt_stage_def Some r Let_def)
  next
    case False
    then show ?thesis
      by (simp add: negamax_tt_stage_def Some r split: option.splits)
  qed
qed

text \<open>
  At a table hit of depth 9 with a best move, at requested depth 8, no excluded move,
  not in check and the score 40, negamax returns 40 at once.
\<close>

lemma singular_extension_failing_input:
  "probe ex_tt 4 8 (- 100) 100 (10, NO_MOVE, 0) = Some (True, 40, 796, 0) \<and>
   negamax_tt_stage ex_tt False (0, False) search 4 8 (- 100) 100 2 NO_MOVE False 10 = Returned 40"
proof -
  have p: "probe ex_tt 4 8 (- 100) 100 (10, NO_MOVE, 0) = Some (True, 40, 796, 0)"
    by (simp add: probe_def ex_index_4) (simp add: ex_tt_def ex_resident_def)
  show ?thesis
    by (simp add: negamax_tt_stage_def p MATE_OFFSET_def)
qed

lemma move_loop_no_legal:
  "list_all (\<lambda>m. targets_king (sm_target m) \<or> sm_mover_in_check m) scored \<Longrightarrow>
   move_loop nd i scored st = Some st"
  by (induction scored arbitrary: i) auto

lemma multi_cut_no_legal:
  "list_all (\<lambda>m. targets_king (sm_target m) \<or> sm_mover_in_check m) ms \<Longrightarrow>
   multi_cut nd c ms = False"
  by (induction ms) auto

lemma list_all_take: "list_all P xs \<Longrightarrow> list_all P (take n xs)"
  by (auto simp: list_all_iff dest: in_set_takeD)

lemma quiescence_loop_no_legal:
  "list_all (\<lambda>m. targets_king (qm_target m) \<or> qm_mover_in_check m) ms \<Longrightarrow>
   quiescence_loop q ms a 0 = (if q_in_check q then - MATE_SCORE + q_ply q else a)"
  by (induction ms) auto

text \<open>
  Claim C7 as it is written fails on the code for quiescence: "in check and no legal
  move" is not enough for the mate score. Quiescence first takes its returns before the
  move generation. At the depth limit \<open>q_depth \<ge> MAX_QSEARCH_DEPTH\<close> (or at
  \<open>ply \<ge> MAX_PLY\<close>) it returns the static evaluation, and on a stop, the node limit or
  a repetition it returns 0, whether or not the side to move is mated. The node below is
  in check at ply 3 with no legal move, at quiescence depth 8 with static evaluation 8:
  the value is 8, not \<open>-MATE_SCORE + 3\<close>.
\<close>

theorem quiescence_depth_limit_at_mate:
  "q_in_check ex_qnode_deep \<and>
   list_all (\<lambda>m. targets_king (qm_target m) \<or> qm_mover_in_check m) ex_qmoves \<and>
   quiescence ex_qnode_deep ex_qmoves = 8 \<and>
   quiescence ex_qnode_deep ex_qmoves \<noteq> - MATE_SCORE + q_ply ex_qnode_deep"
  by (simp add: quiescence_def quiescence_early_def ex_qnode_deep_def ex_qnode_def
      ex_qmoves_def MAX_PLY_def MAX_QSEARCH_DEPTH_def MATE_SCORE_def)

text \<open>
  Claim C7, amended. When negamax comes to its move generation and no move of the node
  is legal (each one would capture a king or leaves the own king in check, and a split
  point found nothing either), it returns \<open>-MATE_SCORE + ply\<close> in check and 0
  otherwise. When quiescence takes none of its returns before the move generation
  (\<open>quiescence_early q = None\<close>: below the ply and depth limits, not stopped, no
  repetition, no tablebase result), the side to move is in check and no move is legal,
  it returns \<open>-MATE_SCORE + ply\<close>.
\<close>

theorem terminal_node_scores:
  "(list_all (\<lambda>m. targets_king (sm_target m) \<or> sm_mover_in_check m) scored \<and>
    fst (nd_split nd) = - INF_VALUE \<longrightarrow>
      fst (negamax_moves nd cnt scored) =
        (if nd_in_check nd then - MATE_SCORE + nd_ply nd else 0)) \<and>
   (list_all (\<lambda>m. targets_king (qm_target m) \<or> qm_mover_in_check m) moves \<and>
    quiescence_early q = None \<and> q_in_check q \<longrightarrow>
      quiescence q moves = - MATE_SCORE + q_ply q)"
proof (intro conjI impI)
  assume a: "list_all (\<lambda>m. targets_king (sm_target m) \<or> sm_mover_in_check m) scored \<and>
    fst (nd_split nd) = - INF_VALUE"
  then have mc: "multi_cut nd 0 (take 3 scored) = False"
    by (simp add: multi_cut_no_legal list_all_take)
  from a show "fst (negamax_moves nd cnt scored) =
        (if nd_in_check nd then - MATE_SCORE + nd_ply nd else 0)"
    by (simp add: negamax_moves_def mc move_loop_no_legal Let_def)
next
  assume "list_all (\<lambda>m. targets_king (qm_target m) \<or> qm_mover_in_check m) moves \<and>
    quiescence_early q = None \<and> q_in_check q"
  then show "quiescence q moves = - MATE_SCORE + q_ply q"
    by (simp add: quiescence_def quiescence_loop_no_legal)
qed

text \<open>
  A node at ply 3 with two moves that both leave the king in check. In check, the value
  is \<open>-32000 + 3\<close>, in negamax and in quiescence; the same node of negamax not in check
  is a stalemate and has the value 0.
\<close>

theorem terminal_node_scores_witness:
  "list_all (\<lambda>m. targets_king (sm_target m) \<or> sm_mover_in_check m) ex_scored \<and>
   fst (nd_split ex_node) = - INF_VALUE \<and>
   nd_in_check ex_node \<and>
   fst (negamax_moves ex_node 2 ex_scored) = - 31997 \<and>
   fst (nd_split (ex_node\<lparr>nd_in_check := False\<rparr>)) = - INF_VALUE \<and>
   \<not> nd_in_check (ex_node\<lparr>nd_in_check := False\<rparr>) \<and>
   fst (negamax_moves (ex_node\<lparr>nd_in_check := False\<rparr>) 2 ex_scored) = 0 \<and>
   list_all (\<lambda>m. targets_king (qm_target m) \<or> qm_mover_in_check m) ex_qmoves \<and>
   quiescence_early ex_qnode = None \<and> q_in_check ex_qnode \<and>
   quiescence ex_qnode ex_qmoves = - 31997"
proof -
  have 1: "list_all (\<lambda>m. targets_king (sm_target m) \<or> sm_mover_in_check m) ex_scored"
    by (simp add: ex_scored_def)
  have 2: "fst (nd_split ex_node) = - INF_VALUE"
    "fst (nd_split (ex_node\<lparr>nd_in_check := False\<rparr>)) = - INF_VALUE"
    by (simp_all add: ex_node_def)
  have 3: "list_all (\<lambda>m. targets_king (qm_target m) \<or> qm_mover_in_check m) ex_qmoves"
    by (simp add: ex_qmoves_def)
  have 4: "quiescence_early ex_qnode = None"
    by (simp add: quiescence_early_def ex_qnode_def MAX_PLY_def MAX_QSEARCH_DEPTH_def)
  have 5: "q_in_check ex_qnode" "nd_in_check ex_node" "nd_ply ex_node = 3" "q_ply ex_qnode = 3"
    by (simp_all add: ex_qnode_def ex_node_def)
  have 6: "fst (negamax_moves ex_node 2 ex_scored) = - 31997"
    "quiescence ex_qnode ex_qmoves = - 31997"
    using terminal_node_scores [of ex_scored ex_node 2 ex_qmoves ex_qnode] 1 2 3 4 5
    by (simp_all add: MATE_SCORE_def)
  have 7: "fst (negamax_moves (ex_node\<lparr>nd_in_check := False\<rparr>) 2 ex_scored) = 0"
    using terminal_node_scores [of ex_scored "ex_node\<lparr>nd_in_check := False\<rparr>" 2 ex_qmoves ex_qnode]
      1 2
    by simp
  show ?thesis
    by (simp add: 1 2 3 4 5 6 7)
qed

section \<open>Theorems: make_move and undo_move\<close>

lemma field_compute_hash [simp]:
  "board (compute_hash zk P) = board P" "pieces (compute_hash zk P) = pieces P"
  "castle_rook_sq (compute_hash zk P) = castle_rook_sq P" "side (compute_hash zk P) = side P"
  "ep_square (compute_hash zk P) = ep_square P" "fifty (compute_hash zk P) = fifty P"
  "history (compute_hash zk P) = history P"
  by (simp_all add: compute_hash_def Let_def)

lemma field_push_hash [simp]:
  "board (push_hash P) = board P" "pieces (push_hash P) = pieces P"
  "castle_rook_sq (push_hash P) = castle_rook_sq P" "side (push_hash P) = side P"
  "ep_square (push_hash P) = ep_square P" "fifty (push_hash P) = fifty P"
  "history (push_hash P) = history P @ [hash P]"
  by (simp_all add: push_hash_def)

lemma field_pop_hash [simp]:
  "board (pop_hash P) = board P" "pieces (pop_hash P) = pieces P"
  "castle_rook_sq (pop_hash P) = castle_rook_sq P" "side (pop_hash P) = side P"
  "ep_square (pop_hash P) = ep_square P" "fifty (pop_hash P) = fifty P"
  by (simp_all add: pop_hash_def)

lemma field_update_occupied [simp]:
  "board (update_occupied P) = board P" "pieces (update_occupied P) = pieces P"
  "castle_rook_sq (update_occupied P) = castle_rook_sq P" "side (update_occupied P) = side P"
  "ep_square (update_occupied P) = ep_square P" "fifty (update_occupied P) = fifty P"
  "history (update_occupied P) = history P" "hash (update_occupied P) = hash P"
  by (simp_all add: update_occupied_def)

lemma field_finish_move [simp]:
  "board (finish_move zk P) = board P" "pieces (finish_move zk P) = pieces P"
  "castle_rook_sq (finish_move zk P) = castle_rook_sq P" "side (finish_move zk P) = side P"
  "ep_square (finish_move zk P) = ep_square P" "fifty (finish_move zk P) = fifty P"
  "history (finish_move zk P) = history P @ [hash P]"
  by (simp_all add: finish_move_def Let_def)

lemma field_finish_fen [simp]:
  "board (finish_fen zk P) = board P" "pieces (finish_fen zk P) = pieces P"
  "castle_rook_sq (finish_fen zk P) = castle_rook_sq P" "side (finish_fen zk P) = side P"
  "ep_square (finish_fen zk P) = ep_square P" "fifty (finish_fen zk P) = fifty P"
  by (simp_all add: finish_fen_def Let_def)

lemma field_set_board [simp]:
  "board (set_board P s v) = (board P)[nat s := v]" "pieces (set_board P s v) = pieces P"
  "side (set_board P s v) = side P" "castle_rook_sq (set_board P s v) = castle_rook_sq P"
  "ep_square (set_board P s v) = ep_square P" "fifty (set_board P s v) = fifty P"
  by (simp_all add: set_board_def)

lemma field_set_bb [simp]:
  "board (set_bb P c pt w) = board P"
  "pieces (set_bb P c pt w) = (pieces P)[nat (7 * color_int c + pt) := w]"
  "side (set_bb P c pt w) = side P" "castle_rook_sq (set_bb P c pt w) = castle_rook_sq P"
  "ep_square (set_bb P c pt w) = ep_square P" "fifty (set_bb P c pt w) = fifty P"
  by (simp_all add: set_bb_def)

lemma field_set_castle_rook [simp]:
  "board (set_castle_rook P c i v) = board P" "pieces (set_castle_rook P c i v) = pieces P"
  "side (set_castle_rook P c i v) = side P"
  "castle_rook_sq (set_castle_rook P c i v) = (castle_rook_sq P)[nat (2 * color_int c + i) := v]"
  "ep_square (set_castle_rook P c i v) = ep_square P" "fifty (set_castle_rook P c i v) = fifty P"
  by (simp_all add: set_castle_rook_def)

lemma field_restore_castling_rights [simp]:
  "board (restore_castling_rights P packed) = board P"
  "pieces (restore_castling_rights P packed) = pieces P"
  "side (restore_castling_rights P packed) = side P"
  by (simp_all add: restore_castling_rights_def)

lemmas block_defs = lift_piece_def castle_rook_move_def en_passant_capture_def special_move_def
  captured_piece_def drop_piece_def remove_captured_def promote_def update_castle_slots_def
  set_en_passant_def set_fifty_def clear_slots_from_def move_back_def restore_captured_def
  orig_rook_sq_def castle_rook_back_def en_passant_back_def special_back_def unpromote_def
  xor_bb_def or_bb_def

lemmas pos_defs = put_piece_def bb_def clear_def xor_bb_def or_bb_def
  piece_code_def color_int_def piece_on_def castle_rook_def opp_def make_square_def sq_bit_def
  NO_PIECE_def PAWN_def KNIGHT_def BISHOP_def ROOK_def QUEEN_def KING_def

lemma ex_h1h8_fields:
  "ex_h1h8 \<noteq> NULL_MOVE" "from_sq ex_h1h8 = 7" "to_sq ex_h1h8 = 63"
  "\<not> is_castling ex_h1h8" "\<not> is_en_passant ex_h1h8" "promotion_type ex_h1h8 = NO_PIECE"
  by (simp_all add: ex_h1h8_def make_move_sq_def NULL_MOVE_def from_sq_def to_sq_def
      is_castling_def is_en_passant_def promotion_type_def PROMO_MASK_def CASTLE_FLAG_def
      ENPASSANT_FLAG_def PROMO_KNIGHT_def PROMO_BISHOP_def PROMO_ROOK_def PROMO_QUEEN_def
      NO_PIECE_def)

lemma ex_castle_fields:
  "ex_castle \<noteq> NULL_MOVE" "from_sq ex_castle = 5" "to_sq ex_castle = 6"
  "is_castling ex_castle" "\<not> is_en_passant ex_castle" "promotion_type ex_castle = NO_PIECE"
  by (simp_all add: ex_castle_def make_move_sq_def NULL_MOVE_def from_sq_def to_sq_def
      is_castling_def is_en_passant_def promotion_type_def PROMO_MASK_def CASTLE_FLAG_def
      ENPASSANT_FLAG_def PROMO_KNIGHT_def PROMO_BISHOP_def PROMO_ROOK_def PROMO_QUEEN_def
      NO_PIECE_def)

text \<open>
  Claim C1 fails on the code. In \<^verbatim>\<open>4k2r/8/8/8/8/8/8/4K2R w Kk\<close> the slot
  \<^verbatim>\<open>castle_rook_sq[BLACK][0]\<close> names h8, where the black rook stands. After the white rook
  takes it (h1h8) the slot is still h8, and the piece on h8 is a white rook: the loop
  compares the slots with the origin square of the move only, never with its target.
\<close>

theorem capture_leaves_opponent_slot:
  "castle_rook ex_rook_pos BLACK 0 = 63 \<and>
   piece_on ex_rook_pos 63 = piece_code BLACK ROOK \<and>
   piece_on ex_rook_pos 7 = piece_code WHITE ROOK \<and>
   castle_rook (make_move ex_keys ex_rook_pos ex_h1h8) BLACK 0 = 63 \<and>
   piece_on (make_move ex_keys ex_rook_pos ex_h1h8) 63 = piece_code WHITE ROOK"
proof -
  have 1: "castle_rook ex_rook_pos BLACK 0 = 63"
    by (simp add: ex_rook_pos_def pos_defs)
  have 2: "piece_on ex_rook_pos 63 = piece_code BLACK ROOK"
    by (simp add: ex_rook_pos_def pos_defs)
  have 3: "piece_on ex_rook_pos 7 = piece_code WHITE ROOK"
    by (simp add: ex_rook_pos_def pos_defs)
  have 4: "castle_rook (make_move ex_keys ex_rook_pos ex_h1h8) BLACK 0 = 63"
    by (simp add: make_move_def ex_h1h8_fields Let_def ex_rook_pos_def block_defs pos_defs)
  have 5: "piece_on (make_move ex_keys ex_rook_pos ex_h1h8) 63 = piece_code WHITE ROOK"
    by (simp add: make_move_def ex_h1h8_fields Let_def ex_rook_pos_def block_defs pos_defs)
  from 1 2 3 4 5 show ?thesis by (intro conjI)
qed

lemma castling_not_other:
  assumes "is_castling m"
  shows "\<not> is_en_passant m" "promotion_type m = NO_PIECE"
  using assms
  by (simp_all add: is_castling_def is_en_passant_def promotion_type_def CASTLE_FLAG_def
      ENPASSANT_FLAG_def PROMO_KNIGHT_def PROMO_BISHOP_def PROMO_ROOK_def PROMO_QUEEN_def)

lemma side_blocks [simp]:
  "side (lift_piece P us pt f) = side P"
  "side (special_move P m us f t) = side P"
  "side (drop_piece P us pt t pc) = side P"
  "side (remove_captured P m us cap t) = side P"
  "side (promote P m us pt t) = side P"
  by (simp_all add: block_defs Let_def)

lemma length_board_blocks [simp]:
  "length (board (lift_piece P us pt f)) = length (board P)"
  "length (board (special_move P m us f t)) = length (board P)"
  "length (board (drop_piece P us pt t pc)) = length (board P)"
  "length (board (remove_captured P m us cap t)) = length (board P)"
  "length (board (promote P m us pt t)) = length (board P)"
  by (simp_all add: block_defs Let_def)

lemma board_tail_blocks [simp]:
  "board (clear_slots_from us f s P) = board P"
  "board (set_en_passant P us pt f t) = board P"
  "board (set_fifty P cap pt) = board P"
  by (simp_all add: block_defs Let_def)

lemma board_update_castle_slots [simp]:
  "board (update_castle_slots P us pt f) = board P"
  by (simp add: update_castle_slots_def)

lemma length_board_make_move:
  "length (board (make_move zk P m)) = length (board P)"
  by (simp add: make_move_def Let_def)

lemma side_make_move:
  "side (make_move zk P m) = opp (side P)"
  by (simp add: make_move_def Let_def)

text \<open>
  The mailbox after undoing any castling move: the four writes of \<^verbatim>\<open>undo_move\<close>, in the
  order of the source. The third one clears the rook's destination square even when
  it is the square the king has just been put back on.
\<close>

lemma board_undo_castling:
  assumes "is_castling m" "m \<noteq> NULL_MOVE"
  shows "board (undo_move zk Q m captured old_castle old_ep old_fifty) =
    (board Q)[nat (to_sq m) := captured,
              nat (from_sq m) := piece_code (opp (side Q)) (piece_on Q (to_sq m) AND 7),
              nat (make_square (if to_sq m > from_sq m then 5 else 3)
                     (if opp (side Q) = WHITE then 0 else 7)) := 0,
              nat (orig_rook_sq (opp (side Q)) (if to_sq m > from_sq m then 0 else 1)
                     old_castle) := piece_code (opp (side Q)) ROOK]"
  using assms
  by (simp add: undo_move_def Let_def castling_not_other piece_on_def move_back_def
      restore_captured_def special_back_def castle_rook_back_def unpromote_def xor_bb_def
      or_bb_def)

lemma ex_castle_saved:
  "piece_on ex_castle_pos (to_sq ex_castle) = 0" "castling_rights ex_castle_pos = 8"
  "side ex_castle_pos = WHITE" "length (board ex_castle_pos) = 64"
  by (simp_all add: ex_castle_fields castling_rights_def enc_def ex_castle_pos_def pos_defs)

text \<open>
  Claim C2 fails on the code. In \<^verbatim>\<open>5k2/8/8/8/8/8/8/5K1R w K\<close> White castles with the
  king on f1: the king goes to g1 and the rook to f1. \<^verbatim>\<open>undo_move\<close>, called with the
  values saved before the move, first puts the king back on f1 and then clears the
  rook's destination square, which is f1 as well: the mailbox shows f1 empty, where the
  king stood before the move.
\<close>

theorem undo_castling_loses_king:
  "piece_on ex_castle_pos 5 = piece_code WHITE KING \<and>
   piece_on (undo_move ex_keys (make_move ex_keys ex_castle_pos ex_castle) ex_castle
      (piece_on ex_castle_pos (to_sq ex_castle)) (castling_rights ex_castle_pos)
      (ep_square ex_castle_pos) (fifty ex_castle_pos)) 5 = 0"
proof -
  have 1: "piece_on ex_castle_pos 5 = piece_code WHITE KING"
    by (simp add: ex_castle_pos_def pos_defs)
  have 2: "piece_on (undo_move ex_keys (make_move ex_keys ex_castle_pos ex_castle) ex_castle
      (piece_on ex_castle_pos (to_sq ex_castle)) (castling_rights ex_castle_pos)
      (ep_square ex_castle_pos) (fifty ex_castle_pos)) 5 = 0"
    by (simp add: piece_on_def [of "undo_move _ _ _ _ _ _ _"] board_undo_castling
        ex_castle_fields ex_castle_saved side_make_move length_board_make_move opp_def
        make_square_def orig_rook_sq_def dec_def)
  from 1 2 show ?thesis by (intro conjI)
qed

text \<open>
  Claim C4 fails on the code. The null move flips the side to move and pushes the hash
  onto the history, but it returns before the statement that resets the en-passant
  square: the square is the same after the null move as before.
\<close>

theorem null_move_keeps_en_passant:
  "ep_square (make_move zk P NULL_MOVE) = ep_square P \<and>
   side (make_move zk P NULL_MOVE) = opp (side P) \<and>
   history (make_move zk P NULL_MOVE) = history P @ [hash P]"
  by (simp add: make_move_def)

text \<open>
  After 1. e4 (\<^verbatim>\<open>4k3/8/8/8/3pP3/8/8/4K3 b - e3\<close>) the en-passant square is e3, and it is
  still e3 after a null move.
\<close>

lemma null_move_failing_input:
  "ep_square ex_ep_pos = 20 \<and> ep_square (make_move ex_keys ex_ep_pos NULL_MOVE) = 20"
  by (simp add: make_move_def ex_ep_pos_def)

text \<open>
  The same in the start position after 1. e4, where Black has pieces and the null-move
  pruning of negamax makes the null move: the en-passant square is still e3 for White.
\<close>

lemma null_move_after_e4:
  "ep_square ex_e4_pos = 20 \<and> side ex_e4_pos = BLACK \<and>
   ep_square (make_move ex_keys ex_e4_pos NULL_MOVE) = 20 \<and>
   side (make_move ex_keys ex_e4_pos NULL_MOVE) = WHITE"
  by (simp add: make_move_def ex_e4_pos_def opp_def)

section \<open>Theorems: move generation\<close>

lemma lsb_props:
  assumes "b \<noteq> 0"
  shows "0 \<le> lsb b \<and> lsb b < 64 \<and> bit b (nat (lsb b))"
proof -
  from assms obtain n where n: "bit b n"
    by (auto simp: bit_eq_iff)
  then have "n < 64" using bit_imp_le_length [of b n] by simp
  with n have "n \<in> set (filter (bit b) [0..<64])" by simp
  then obtain k ks where f: "filter (bit b) [0..<64] = k # ks"
    by (cases "filter (bit b) [0..<64]") auto
  then have "k \<in> set (filter (bit b) [0..<64])" by simp
  then have "bit b k" "k < 64" by auto
  with f show ?thesis by (simp add: lsb_def)
qed











































section \<open>Theorems: the evaluator under the mirror\<close>


lemma square_facts:
  "list_all (\<lambda>s. 0 \<le> flip_sq s \<and> flip_sq s < 64 \<and> file_of (flip_sq s) = file_of s \<and>
      rank_of (flip_sq s) = 7 - rank_of s \<and> flip_sq (flip_sq s) = s \<and>
      0 \<le> file_of s \<and> file_of s < 8 \<and> 0 \<le> rank_of s \<and> rank_of s < 8 \<and>
      make_square (file_of s) (rank_of s) = s) [0..63]"
  by (simp add: upto.simps flip_sq_def file_of_def rank_of_def make_square_def)

lemma flip_sq_props:
  assumes "0 \<le> s" "s < 64"
  shows "0 \<le> flip_sq s" "flip_sq s < 64" "file_of (flip_sq s) = file_of s"
    "rank_of (flip_sq s) = 7 - rank_of s" "flip_sq (flip_sq s) = s"
    "0 \<le> file_of s" "file_of s < 8" "0 \<le> rank_of s" "rank_of s < 8"
    "make_square (file_of s) (rank_of s) = s"
  using square_facts assms by (simp_all add: list_all_iff)

lemma make_square_facts:
  "list_all (\<lambda>f. list_all (\<lambda>r. 0 \<le> make_square f r \<and> make_square f r < 64 \<and>
      file_of (make_square f r) = f \<and> rank_of (make_square f r) = r \<and>
      flip_sq (make_square f r) = make_square f (7 - r)) [0..7]) [0..7]"
  by (simp add: upto.simps flip_sq_def file_of_def rank_of_def make_square_def)

lemma make_square_props:
  assumes "0 \<le> f" "f < 8" "0 \<le> r" "r < 8"
  shows "0 \<le> make_square f r" "make_square f r < 64" "file_of (make_square f r) = f"
    "rank_of (make_square f r) = r" "flip_sq (make_square f r) = make_square f (7 - r)"
  using make_square_facts assms by (simp_all add: list_all_iff)

lemma bit_sq_bit: "bit (sq_bit s) n \<longleftrightarrow> n = nat s \<and> n < 64"
  by (auto simp: sq_bit_def bit_push_bit_iff bit_1_iff bit_exp_iff)

lemma bit_fold_or:
  "bit (fold (\<lambda>s a. if p s then a OR h s else a) xs a0) n \<longleftrightarrow>
     bit a0 n \<or> (\<exists>s\<in>set xs. p s \<and> bit (h s) n)"
  by (induction xs arbitrary: a0) (auto simp: bit_or_iff)

lemma flip_idx_props:
  assumes "n < 64"
  shows "flip_idx n < 64" "flip_idx (flip_idx n) = n"
proof -
  have r: "0 \<le> int n" "int n < 64" using assms by simp_all
  show "flip_idx n < 64" unfolding flip_idx_def using flip_sq_props(1,2) [OF r] by linarith
  have "int (nat (flip_sq (int n))) = flip_sq (int n)" using flip_sq_props(1) [OF r] by simp
  then show "flip_idx (flip_idx n) = n"
    unfolding flip_idx_def using flip_sq_props(5) [OF r] by simp
qed

lemma flip_idx_sq:
  assumes "0 \<le> s" "s < 64"
  shows "nat (flip_sq s) = flip_idx (nat s)" "int (flip_idx (nat s)) = flip_sq s"
proof -
  have "int (nat s) = s" using assms by simp
  then show "nat (flip_sq s) = flip_idx (nat s)" by (simp only: flip_idx_def)
  then show "int (flip_idx (nat s)) = flip_sq s" using flip_sq_props(1) [OF assms] by linarith
qed

lemma bit_flip_bb: "bit (flip_bb b) n \<longleftrightarrow> n < 64 \<and> bit b (flip_idx n)"
proof -
  have "bit (flip_bb b) n \<longleftrightarrow> (\<exists>s\<in>{0..63}. bit b (nat s) \<and> n = nat (flip_sq s) \<and> n < 64)"
    unfolding flip_bb_def by (simp add: bit_fold_or bit_sq_bit)
  also have "\<dots> \<longleftrightarrow> n < 64 \<and> bit b (flip_idx n)"
  proof
    assume "\<exists>s\<in>{0..63}. bit b (nat s) \<and> n = nat (flip_sq s) \<and> n < 64"
    then obtain s where s: "0 \<le> s" "s < 64" "bit b (nat s)" "n = nat (flip_sq s)" "n < 64"
      by auto
    have "n = flip_idx (nat s)" using flip_idx_sq(1) [OF s(1,2)] s(4) by simp
    moreover have "nat s < 64" using s(1,2) by linarith
    ultimately have "flip_idx n = nat s" using flip_idx_props(2) by simp
    with s show "n < 64 \<and> bit b (flip_idx n)" by simp
  next
    assume a: "n < 64 \<and> bit b (flip_idx n)"
    let ?s = "int (flip_idx n)"
    have "?s \<in> {0..63}" using flip_idx_props(1) [of n] a by simp
    moreover have "bit b (nat ?s)" using a by simp
    moreover have "n = nat (flip_sq ?s)"
      using flip_idx_props(2) [of n] a by (simp add: flip_idx_def)
    ultimately show "\<exists>s\<in>{0..63}. bit b (nat s) \<and> n = nat (flip_sq s) \<and> n < 64"
      using a by blast
  qed
  finally show ?thesis .
qed

lemma bit_U64: "bit (b :: U64) n \<Longrightarrow> n < 64"
  using bit_imp_le_length [of b n] by simp

lemma flip_bb_or: "flip_bb (a OR b) = flip_bb a OR flip_bb b"
  by (rule bit_eqI) (auto simp: bit_flip_bb bit_or_iff)

lemma flip_bb_and: "flip_bb (a AND b) = flip_bb a AND flip_bb b"
  by (rule bit_eqI) (auto simp: bit_flip_bb bit_and_iff)

lemma flip_bb_not: "flip_bb (NOT a) = NOT (flip_bb a)"
  by (rule bit_eqI) (auto simp: bit_flip_bb bit_not_iff flip_idx_props)

lemma flip_bb_0: "flip_bb 0 = 0"
  by (rule bit_eqI) (simp add: bit_flip_bb)

lemma flip_flip_bb: "flip_bb (flip_bb b) = b"
  by (rule bit_eqI) (auto simp: bit_flip_bb flip_idx_props dest: bit_U64)

lemma flip_bb_eq_0: "flip_bb b = 0 \<longleftrightarrow> b = 0"
  using flip_flip_bb [of b] flip_bb_0 by auto

lemma flip_bb_sq_bit:
  assumes "0 \<le> s" "s < 64"
  shows "flip_bb (sq_bit s) = sq_bit (flip_sq s)"
proof (rule bit_eqI)
  fix n
  have s: "nat s < 64" using assms by linarith
  have "n < 64 \<and> flip_idx n = nat s \<longleftrightarrow> n = flip_idx (nat s) \<and> n < 64"
    using flip_idx_props s by metis
  then show "bit (flip_bb (sq_bit s)) n = bit (sq_bit (flip_sq s)) n"
    using s by (auto simp: bit_flip_bb bit_sq_bit flip_idx_sq(1) [OF assms] flip_idx_props)
qed

lemma popcount_card: "popcount b = int (card {n. n < 64 \<and> bit b n})"
proof -
  have "length (filter (bit b) [0..<64]) = card {i. i < length [0..<64] \<and> bit b ([0..<64] ! i)}"
    by (rule length_filter_conv_card)
  also have "{i. i < length [0..<64] \<and> bit b ([0..<64] ! i)} = {n. n < 64 \<and> bit b n}"
    by auto
  finally show ?thesis by (simp add: popcount_def)
qed

lemma popcount_flip_bb: "popcount (flip_bb b) = popcount b"
proof -
  have "{n. n < 64 \<and> bit (flip_bb b) n} = flip_idx ` {n. n < 64 \<and> bit b n}"
  proof (intro set_eqI iffI)
    fix x assume "x \<in> {n. n < 64 \<and> bit (flip_bb b) n}"
    then have x: "x < 64" "bit b (flip_idx x)" by (simp_all add: bit_flip_bb)
    then have "flip_idx x \<in> {n. n < 64 \<and> bit b n}" "flip_idx (flip_idx x) = x"
      using flip_idx_props by simp_all
    then show "x \<in> flip_idx ` {n. n < 64 \<and> bit b n}" by (metis imageI)
  next
    fix x assume "x \<in> flip_idx ` {n. n < 64 \<and> bit b n}"
    then obtain y where y: "y < 64" "bit b y" "x = flip_idx y" by auto
    then show "x \<in> {n. n < 64 \<and> bit (flip_bb b) n}" by (simp add: bit_flip_bb flip_idx_props)
  qed
  moreover have "inj_on flip_idx {n. n < 64 \<and> bit b n}"
    by (rule inj_on_inverseI [where g = flip_idx]) (simp add: flip_idx_props)
  ultimately show ?thesis by (simp add: popcount_card card_image)
qed

lemma nat_and_dec:
  fixes x :: nat
  assumes "x > 0"
  shows "bit (x AND (x - 1)) n \<longleftrightarrow> bit x n \<and> (\<exists>m<n. bit x m)"
  using assms
proof (induction n arbitrary: x)
  case 0
  then show ?case by (cases "even x") (auto simp: bit_0 even_and_iff)
next
  case (Suc n)
  show ?case
  proof (cases "even x")
    case True
    with Suc.prems have p: "x div 2 > 0" by (auto elim: evenE)
    have d: "(x - Suc 0) div 2 = x div 2 - Suc 0" using True Suc.prems by (auto elim!: evenE)
    have "bit (x AND (x - 1)) (Suc n) \<longleftrightarrow> bit x (Suc n) \<and> bit (x - 1) (Suc n)"
      by (simp only: bit_and_iff)
    also have "\<dots> \<longleftrightarrow> bit (x div 2) n \<and> bit (x div 2 - 1) n"
      by (simp add: bit_Suc d)
    also have "\<dots> \<longleftrightarrow> bit (x div 2 AND (x div 2 - 1)) n"
      by (simp only: bit_and_iff)
    also have "\<dots> \<longleftrightarrow> bit (x div 2) n \<and> (\<exists>m<n. bit (x div 2) m)"
      using Suc.IH [OF p] .
    also have "\<dots> \<longleftrightarrow> bit x (Suc n) \<and> (\<exists>m<Suc n. bit x m)"
      using True by (simp add: bit_Suc Ex_less_Suc2 bit_0)
    finally show ?thesis .
  next
    case False
    then have d: "(x - Suc 0) div 2 = x div 2" by (auto elim!: oddE)
    have "bit (x AND (x - 1)) (Suc n) \<longleftrightarrow> bit x (Suc n) \<and> bit (x - 1) (Suc n)"
      by (simp only: bit_and_iff)
    also have "\<dots> \<longleftrightarrow> bit (x div 2) n"
      by (simp add: bit_Suc d)
    finally have "bit (x AND (x - 1)) (Suc n) \<longleftrightarrow> bit (x div 2) n" .
    moreover have "\<exists>m<Suc n. bit x m" using False by (auto simp: bit_0 intro: exI [of _ 0])
    ultimately show ?thesis by (simp add: bit_Suc)
  qed
qed

lemma word_and_dec:
  fixes b :: U64
  assumes "b \<noteq> 0"
  shows "bit (b AND (b - 1)) n \<longleftrightarrow> bit b n \<and> (\<exists>m<n. bit b m)"
proof -
  have p: "unat b > 0" using assms by (simp add: unat_gt_0)
  have u: "unat (b - 1) = unat b - 1" using assms by (simp add: unat_minus_one)
  have "bit (b AND (b - 1)) n \<longleftrightarrow> bit (unat (b AND (b - 1))) n"
    by (simp add: bit_unsigned_iff)
  also have "\<dots> \<longleftrightarrow> bit (unat b AND (unat b - 1)) n"
    by (simp add: unsigned_and_eq u)
  also have "\<dots> \<longleftrightarrow> bit (unat b) n \<and> (\<exists>m<n. bit (unat b) m)"
    by (rule nat_and_dec [OF p])
  also have "\<dots> \<longleftrightarrow> bit b n \<and> (\<exists>m<n. bit b m)"
    by (simp add: bit_unsigned_iff)
  finally show ?thesis .
qed

lemma lsb_least:
  assumes "bit b m"
  shows "lsb b \<le> int m"
proof -
  have m: "m \<in> set (filter (bit b) [0..<64])" using assms bit_U64 [OF assms] by simp
  then obtain k ks where f: "filter (bit b) [0..<64] = k # ks"
    by (cases "filter (bit b) [0..<64]") auto
  have "sorted (filter (bit b) [0..<64])" by (rule sorted_wrt_filter) simp
  with f have "\<forall>y\<in>set ks. k \<le> y" by simp
  with m f have "k \<le> m" by auto
  with f show ?thesis by (simp add: lsb_def)
qed

lemma bit_clear_lsb:
  assumes "b \<noteq> 0"
  shows "bit (b AND (b - 1)) n \<longleftrightarrow> bit b n \<and> int n \<noteq> lsb b"
proof -
  have l: "0 \<le> lsb b" "bit b (nat (lsb b))" using lsb_props [OF assms] by simp_all
  have "bit b n \<Longrightarrow> (\<exists>m<n. bit b m) \<longleftrightarrow> int n \<noteq> lsb b"
  proof
    assume "\<exists>m<n. bit b m"
    then obtain m where "m < n" "bit b m" by auto
    with lsb_least [of b m] show "int n \<noteq> lsb b" by simp
  next
    assume n: "bit b n" "int n \<noteq> lsb b"
    with lsb_least [of b n] have "nat (lsb b) < n" using l(1) by linarith
    with l(2) show "\<exists>m<n. bit b m" by blast
  qed
  then show ?thesis using word_and_dec [OF assms] by blast
qed

lemma set_bb_squares:
  "set (bb_squares b) = {s. 0 \<le> s \<and> s < 64 \<and> bit b (nat s)} \<and> distinct (bb_squares b)"
proof (induction b rule: bb_squares.induct)
  case (1 b)
  show ?case
  proof (cases "b = 0")
    case True
    then show ?thesis by (simp add: bb_squares.simps)
  next
    case False
    let ?b' = "b AND (b - 1)"
    have e: "bb_squares b = lsb b # bb_squares ?b'"
      using False by (subst bb_squares.simps) simp
    have ih: "set (bb_squares ?b') = {s. 0 \<le> s \<and> s < 64 \<and> bit ?b' (nat s)}"
      "distinct (bb_squares ?b')"
      using "1.IH" [OF False] by simp_all
    have l: "0 \<le> lsb b" "lsb b < 64" "bit b (nat (lsb b))" using lsb_props [OF False] by simp_all
    have c: "bit ?b' (nat s) \<longleftrightarrow> bit b (nat s) \<and> s \<noteq> lsb b" if "0 \<le> s" for s
      using bit_clear_lsb [OF False, of "nat s"] that by simp
    have "set (bb_squares b) = {s. 0 \<le> s \<and> s < 64 \<and> bit b (nat s)}"
      unfolding e using ih(1) c l by auto
    moreover have "lsb b \<notin> set (bb_squares ?b')"
      unfolding ih(1) using c [OF l(1)] by simp
    ultimately show ?thesis unfolding e using ih(2) by simp
  qed
qed

lemma set_bb_squares_flip:
  "set (bb_squares (flip_bb b)) = flip_sq ` set (bb_squares b)"
proof (intro set_eqI iffI)
  fix x assume "x \<in> set (bb_squares (flip_bb b))"
  then have x: "0 \<le> x" "x < 64" "bit (flip_bb b) (nat x)" by (simp_all add: set_bb_squares)
  then have "bit b (flip_idx (nat x))" by (simp add: bit_flip_bb)
  then have "bit b (nat (flip_sq x))" using flip_idx_sq(1) [OF x(1,2)] by simp
  then have "flip_sq x \<in> set (bb_squares b)"
    using flip_sq_props(1,2) [OF x(1,2)] by (simp add: set_bb_squares)
  moreover have "x = flip_sq (flip_sq x)" using flip_sq_props(5) [OF x(1,2)] by simp
  ultimately show "x \<in> flip_sq ` set (bb_squares b)" by (rule rev_image_eqI)
next
  fix x assume "x \<in> flip_sq ` set (bb_squares b)"
  then obtain y where y: "0 \<le> y" "y < 64" "bit b (nat y)" "x = flip_sq y"
    by (auto simp: set_bb_squares)
  have "nat y < 64" using y by linarith
  then have "bit (flip_bb b) (flip_idx (nat y))"
    using y(3) by (simp add: bit_flip_bb flip_idx_props)
  then show "x \<in> set (bb_squares (flip_bb b))"
    using y flip_sq_props(1,2) [OF y(1,2)] flip_idx_sq(1) [OF y(1,2)]
    by (simp add: set_bb_squares)
qed

lemma inj_on_flip_sq: "inj_on flip_sq (set (bb_squares b))"
  by (rule inj_on_inverseI [where g = flip_sq]) (simp add: set_bb_squares flip_sq_props)

lemma fold_additive:
  fixes F :: "'a \<Rightarrow> int \<Rightarrow> int"
  assumes "\<And>s a. F s a = a + F s 0"
  shows "fold F xs a0 = a0 + sum_list (map (\<lambda>s. F s 0) xs)"
proof (induction xs arbitrary: a0)
  case Nil
  then show ?case by simp
next
  case (Cons x xs)
  have "F x a0 = a0 + F x 0" by (rule assms)
  then show ?case by (simp add: Cons.IH)
qed

lemma fold_bb_flip:
  fixes F F' :: "int \<Rightarrow> int \<Rightarrow> int"
  assumes a': "\<And>s a. F' s a = a + F' s 0" and a: "\<And>s a. F s a = a + F s 0"
    and pt: "\<And>s. 0 \<le> s \<Longrightarrow> s < 64 \<Longrightarrow> bit b (nat s) \<Longrightarrow> F' (flip_sq s) 0 = k * F s 0"
  shows "fold F' (bb_squares (flip_bb b)) 0 = k * fold F (bb_squares b) 0"
proof -
  have d: "distinct (bb_squares c)" for c by (simp add: set_bb_squares)
  have "fold F' (bb_squares (flip_bb b)) 0 = (\<Sum>s\<in>set (bb_squares (flip_bb b)). F' s 0)"
    by (simp add: fold_additive [of F', OF a'] sum_list_distinct_conv_sum_set d)
  also have "\<dots> = (\<Sum>s\<in>set (bb_squares b). F' (flip_sq s) 0)"
    unfolding set_bb_squares_flip by (simp add: sum.reindex [OF inj_on_flip_sq])
  also have "\<dots> = (\<Sum>s\<in>set (bb_squares b). k * F s 0)"
    by (rule sum.cong) (simp_all add: set_bb_squares pt)
  also have "\<dots> = k * (\<Sum>s\<in>set (bb_squares b). F s 0)"
    by (simp add: sum_distrib_left)
  also have "\<dots> = k * fold F (bb_squares b) 0"
    by (simp add: fold_additive [of F, OF a] sum_list_distinct_conv_sum_set d)
  finally show ?thesis .
qed

lemma bit_fold_or_all:
  "bit (fold (\<lambda>s a. a OR h s) xs a0) n \<longleftrightarrow> bit a0 n \<or> (\<exists>s\<in>set xs. bit (h s) n)"
  by (induction xs arbitrary: a0) (auto simp: bit_or_iff)

lemma fold_or_additive:
  fixes F :: "'a \<Rightarrow> U64 \<Rightarrow> U64"
  assumes "\<And>s a. F s a = a OR F s 0"
  shows "fold F xs a0 = fold (\<lambda>s a. a OR F s 0) xs a0"
  by (rule fold_cong) (simp_all add: assms [symmetric] fun_eq_iff)

lemma fold_or_flip:
  fixes F F' :: "int \<Rightarrow> U64 \<Rightarrow> U64"
  assumes a': "\<And>s a. F' s a = a OR F' s 0" and a: "\<And>s a. F s a = a OR F s 0"
    and pt: "\<And>s. 0 \<le> s \<Longrightarrow> s < 64 \<Longrightarrow> bit b (nat s) \<Longrightarrow> F' (flip_sq s) 0 = flip_bb (F s 0)"
  shows "fold F' (bb_squares (flip_bb b)) 0 = flip_bb (fold F (bb_squares b) 0)"
proof (rule bit_eqI)
  fix n
  have "bit (fold F' (bb_squares (flip_bb b)) 0) n \<longleftrightarrow>
        (\<exists>s\<in>set (bb_squares b). bit (F' (flip_sq s) 0) n)"
    by (simp add: fold_or_additive [of F', OF a'] bit_fold_or_all set_bb_squares_flip)
  also have "\<dots> \<longleftrightarrow> (\<exists>s\<in>set (bb_squares b). bit (flip_bb (F s 0)) n)"
    by (rule bex_cong) (simp_all add: set_bb_squares pt)
  also have "\<dots> \<longleftrightarrow> bit (flip_bb (fold F (bb_squares b) 0)) n"
    by (auto simp: fold_or_additive [of F, OF a] bit_fold_or_all bit_flip_bb)
  finally show "bit (fold F' (bb_squares (flip_bb b)) 0) n =
                bit (flip_bb (fold F (bb_squares b) 0)) n" .
qed

lemma attacks_of_flip:
  assumes "\<And>s. 0 \<le> s \<Longrightarrow> s < 64 \<Longrightarrow> att' (flip_sq s) = flip_bb (att s)"
  shows "attacks_of att' (flip_bb b) = flip_bb (attacks_of att b)"
  unfolding attacks_of_def by (rule fold_or_flip) (simp_all add: assms)

lemma lsb_flip_bb:
  assumes "b \<noteq> 0" "popcount b \<le> 1"
  shows "lsb (flip_bb b) = flip_sq (lsb b)"
proof -
  have l: "0 \<le> lsb b" "lsb b < 64" "bit b (nat (lsb b))" using lsb_props [OF assms(1)] by simp_all
  have fin: "finite {n. n < 64 \<and> bit b n}" by simp
  have "nat (lsb b) \<in> {n. n < 64 \<and> bit b n}" using l by simp
  moreover have "card {n. n < 64 \<and> bit b n} \<le> 1" using assms(2) by (simp add: popcount_card)
  ultimately have one: "\<And>n. n < 64 \<Longrightarrow> bit b n \<Longrightarrow> n = nat (lsb b)"
    using fin by (metis (mono_tags, lifting) card_le_Suc0_iff_eq One_nat_def mem_Collect_eq)
  have nz: "flip_bb b \<noteq> 0" using assms(1) by (simp add: flip_bb_eq_0)
  have l': "0 \<le> lsb (flip_bb b)" "lsb (flip_bb b) < 64" "bit (flip_bb b) (nat (lsb (flip_bb b)))"
    using lsb_props [OF nz] by simp_all
  then have "bit b (nat (flip_sq (lsb (flip_bb b))))"
    by (simp add: bit_flip_bb flip_idx_sq(1))
  then have "nat (flip_sq (lsb (flip_bb b))) = nat (lsb b)"
    using one flip_sq_props(1,2) [OF l'(1,2)] by simp
  then have "flip_sq (lsb (flip_bb b)) = lsb b"
    using flip_sq_props(1) [OF l'(1,2)] l(1) by linarith
  then show ?thesis using flip_sq_props(5) [OF l'(1,2)] by simp
qed

lemma ray_or: "ray occ ss a = a OR ray occ ss 0"
proof (induction ss arbitrary: a)
  case Nil
  then show ?case by simp
next
  case (Cons s ss)
  show ?case
    using Cons.IH [of "a OR sq_bit s"] Cons.IH [of "sq_bit s"]
    by (simp add: ac_simps)
qed

lemma hit_flip:
  assumes "0 \<le> s" "s < 64"
  shows "flip_bb occ AND sq_bit (flip_sq s) = 0 \<longleftrightarrow> occ AND sq_bit s = 0"
proof -
  have "flip_bb occ AND sq_bit (flip_sq s) = flip_bb (occ AND sq_bit s)"
    by (simp add: flip_bb_and flip_bb_sq_bit [OF assms])
  then show ?thesis by (simp add: flip_bb_eq_0)
qed

lemma ray_flip:
  assumes "\<forall>s\<in>set ss. 0 \<le> s \<and> s < 64"
  shows "ray (flip_bb occ) (map flip_sq ss) (flip_bb a) = flip_bb (ray occ ss a)"
  using assms
proof (induction ss arbitrary: a)
  case Nil
  then show ?case by simp
next
  case (Cons s ss)
  then have s: "0 \<le> s" "s < 64" and ss: "\<forall>s\<in>set ss. 0 \<le> s \<and> s < 64" by simp_all
  have e: "flip_bb a OR sq_bit (flip_sq s) = flip_bb (a OR sq_bit s)"
    by (simp add: flip_bb_or flip_bb_sq_bit [OF s])
  show ?case
    using Cons.IH [OF ss, of "a OR sq_bit s"]
    by (simp add: hit_flip [OF s] e)
qed

lemma ray_flip0:
  assumes "\<forall>s\<in>set ss. 0 \<le> s \<and> s < 64"
  shows "ray (flip_bb occ) (map flip_sq ss) 0 = flip_bb (ray occ ss 0)"
  using ray_flip [OF assms, of occ 0] by (simp add: flip_bb_0)

lemma ray4:
  "ray occ l4 (ray occ l3 (ray occ l2 (ray occ l1 0))) =
     ray occ l1 0 OR ray occ l2 0 OR ray occ l3 0 OR ray occ l4 0"
proof -
  have 1: "ray occ l2 (ray occ l1 0) = ray occ l1 0 OR ray occ l2 0"
    by (rule ray_or)
  have 2: "ray occ l3 (ray occ l1 0 OR ray occ l2 0) = (ray occ l1 0 OR ray occ l2 0) OR ray occ l3 0"
    by (rule ray_or)
  have 3: "ray occ l4 ((ray occ l1 0 OR ray occ l2 0) OR ray occ l3 0) =
           ((ray occ l1 0 OR ray occ l2 0) OR ray occ l3 0) OR ray occ l4 0"
    by (rule ray_or)
  show ?thesis unfolding 1 2 3 by (simp add: ac_simps)
qed

lemma upto_unfold:
  "[0..j] = (if 0 \<le> j then 0 # [1..j] else [])" "[1..j] = (if 1 \<le> j then 1 # [2..j] else [])"
  by (simp_all add: upto.simps)

lemma upto_0_7: "[0..7] = [0, 1, 2, 3, 4, 5, 6, 7]"
  by (simp add: upto_unfold)

lemma rook_lists:
  assumes "f \<in> set [0..7]" "r \<in> set [0..7]"
  shows "map (\<lambda>rr. make_square f rr) [7 - r + 1..7] =
        map flip_sq (map (\<lambda>rr. make_square f rr) (rev [0..r - 1]))"
    "map (\<lambda>rr. make_square f rr) (rev [0..7 - r - 1]) =
        map flip_sq (map (\<lambda>rr. make_square f rr) [r + 1..7])"
    "map (\<lambda>ff. make_square ff (7 - r)) [f + 1..7] =
        map flip_sq (map (\<lambda>ff. make_square ff r) [f + 1..7])"
    "map (\<lambda>ff. make_square ff (7 - r)) (rev [0..f - 1]) =
        map flip_sq (map (\<lambda>ff. make_square ff r) (rev [0..f - 1]))"
    "\<forall>x\<in>set (map (\<lambda>rr. make_square f rr) [r + 1..7]). 0 \<le> x \<and> x < 64"
    "\<forall>x\<in>set (map (\<lambda>rr. make_square f rr) (rev [0..r - 1])). 0 \<le> x \<and> x < 64"
    "\<forall>x\<in>set (map (\<lambda>ff. make_square ff r) [f + 1..7]). 0 \<le> x \<and> x < 64"
    "\<forall>x\<in>set (map (\<lambda>ff. make_square ff r) (rev [0..f - 1])). 0 \<le> x \<and> x < 64"
proof -
  define Q where "Q f r \<longleftrightarrow>
      map (\<lambda>rr. make_square f rr) [7 - r + 1..7] =
        map flip_sq (map (\<lambda>rr. make_square f rr) (rev [0..r - 1])) \<and>
      map (\<lambda>rr. make_square f rr) (rev [0..7 - r - 1]) =
        map flip_sq (map (\<lambda>rr. make_square f rr) [r + 1..7]) \<and>
      map (\<lambda>ff. make_square ff (7 - r)) [f + 1..7] =
        map flip_sq (map (\<lambda>ff. make_square ff r) [f + 1..7]) \<and>
      map (\<lambda>ff. make_square ff (7 - r)) (rev [0..f - 1]) =
        map flip_sq (map (\<lambda>ff. make_square ff r) (rev [0..f - 1])) \<and>
      list_all (\<lambda>x. 0 \<le> x \<and> x < 64) (map (\<lambda>rr. make_square f rr) [r + 1..7]) \<and>
      list_all (\<lambda>x. 0 \<le> x \<and> x < 64) (map (\<lambda>rr. make_square f rr) (rev [0..r - 1])) \<and>
      list_all (\<lambda>x. 0 \<le> x \<and> x < 64) (map (\<lambda>ff. make_square ff r) [f + 1..7]) \<and>
      list_all (\<lambda>x. 0 \<le> x \<and> x < 64) (map (\<lambda>ff. make_square ff r) (rev [0..f - 1]))"
    for f r :: int
  have "list_all (\<lambda>f. list_all (\<lambda>r. Q f r) [0..7]) [0..7]"
    unfolding Q_def
    apply (simp add: upto_0_7 upto_unfold make_square_props(5))
    apply (simp add: make_square_def)
    done
  then have q: "Q f r" using assms by (simp add: list_all_iff)
  from q show "map (\<lambda>rr. make_square f rr) [7 - r + 1..7] =
        map flip_sq (map (\<lambda>rr. make_square f rr) (rev [0..r - 1]))"
    unfolding Q_def by (elim conjE)
  from q show "map (\<lambda>rr. make_square f rr) (rev [0..7 - r - 1]) =
        map flip_sq (map (\<lambda>rr. make_square f rr) [r + 1..7])"
    unfolding Q_def by (elim conjE)
  from q show "map (\<lambda>ff. make_square ff (7 - r)) [f + 1..7] =
        map flip_sq (map (\<lambda>ff. make_square ff r) [f + 1..7])"
    unfolding Q_def by (elim conjE)
  from q show "map (\<lambda>ff. make_square ff (7 - r)) (rev [0..f - 1]) =
        map flip_sq (map (\<lambda>ff. make_square ff r) (rev [0..f - 1]))"
    unfolding Q_def by (elim conjE)
  from q show "\<forall>x\<in>set (map (\<lambda>rr. make_square f rr) [r + 1..7]). 0 \<le> x \<and> x < 64"
    unfolding Q_def list_all_iff by (elim conjE)
  from q show "\<forall>x\<in>set (map (\<lambda>rr. make_square f rr) (rev [0..r - 1])). 0 \<le> x \<and> x < 64"
    unfolding Q_def list_all_iff by (elim conjE)
  from q show "\<forall>x\<in>set (map (\<lambda>ff. make_square ff r) [f + 1..7]). 0 \<le> x \<and> x < 64"
    unfolding Q_def list_all_iff by (elim conjE)
  from q show "\<forall>x\<in>set (map (\<lambda>ff. make_square ff r) (rev [0..f - 1])). 0 \<le> x \<and> x < 64"
    unfolding Q_def list_all_iff by (elim conjE)
qed

lemma bishop_lists:
  assumes "f \<in> set [0..7]" "r \<in> set [0..7]"
  shows "map (\<lambda>i. make_square (f + i) (7 - r + i))
          (takeWhile (\<lambda>i. f + i < 8 \<and> 7 - r + i < 8) [1..8]) =
        map flip_sq (map (\<lambda>i. make_square (f + i) (r - i))
          (takeWhile (\<lambda>i. f + i < 8 \<and> r - i \<ge> 0) [1..8]))"
      "map (\<lambda>i. make_square (f - i) (7 - r + i))
          (takeWhile (\<lambda>i. f - i \<ge> 0 \<and> 7 - r + i < 8) [1..8]) =
        map flip_sq (map (\<lambda>i. make_square (f - i) (r - i))
          (takeWhile (\<lambda>i. f - i \<ge> 0 \<and> r - i \<ge> 0) [1..8]))"
      "map (\<lambda>i. make_square (f + i) (7 - r - i))
          (takeWhile (\<lambda>i. f + i < 8 \<and> 7 - r - i \<ge> 0) [1..8]) =
        map flip_sq (map (\<lambda>i. make_square (f + i) (r + i))
          (takeWhile (\<lambda>i. f + i < 8 \<and> r + i < 8) [1..8]))"
      "map (\<lambda>i. make_square (f - i) (7 - r - i))
          (takeWhile (\<lambda>i. f - i \<ge> 0 \<and> 7 - r - i \<ge> 0) [1..8]) =
        map flip_sq (map (\<lambda>i. make_square (f - i) (r + i))
          (takeWhile (\<lambda>i. f - i \<ge> 0 \<and> r + i < 8) [1..8]))"
    "\<forall>x\<in>set (map (\<lambda>i. make_square (f + i) (r + i))
           (takeWhile (\<lambda>i. f + i < 8 \<and> r + i < 8) [1..8])). 0 \<le> x \<and> x < 64"
    "\<forall>x\<in>set (map (\<lambda>i. make_square (f - i) (r + i))
           (takeWhile (\<lambda>i. f - i \<ge> 0 \<and> r + i < 8) [1..8])). 0 \<le> x \<and> x < 64"
    "\<forall>x\<in>set (map (\<lambda>i. make_square (f + i) (r - i))
           (takeWhile (\<lambda>i. f + i < 8 \<and> r - i \<ge> 0) [1..8])). 0 \<le> x \<and> x < 64"
    "\<forall>x\<in>set (map (\<lambda>i. make_square (f - i) (r - i))
           (takeWhile (\<lambda>i. f - i \<ge> 0 \<and> r - i \<ge> 0) [1..8])). 0 \<le> x \<and> x < 64"
proof -
  define Q where "Q f r \<longleftrightarrow>
      map (\<lambda>i. make_square (f + i) (7 - r + i))
          (takeWhile (\<lambda>i. f + i < 8 \<and> 7 - r + i < 8) [1..8]) =
        map flip_sq (map (\<lambda>i. make_square (f + i) (r - i))
          (takeWhile (\<lambda>i. f + i < 8 \<and> r - i \<ge> 0) [1..8])) \<and>
      map (\<lambda>i. make_square (f - i) (7 - r + i))
          (takeWhile (\<lambda>i. f - i \<ge> 0 \<and> 7 - r + i < 8) [1..8]) =
        map flip_sq (map (\<lambda>i. make_square (f - i) (r - i))
          (takeWhile (\<lambda>i. f - i \<ge> 0 \<and> r - i \<ge> 0) [1..8])) \<and>
      map (\<lambda>i. make_square (f + i) (7 - r - i))
          (takeWhile (\<lambda>i. f + i < 8 \<and> 7 - r - i \<ge> 0) [1..8]) =
        map flip_sq (map (\<lambda>i. make_square (f + i) (r + i))
          (takeWhile (\<lambda>i. f + i < 8 \<and> r + i < 8) [1..8])) \<and>
      map (\<lambda>i. make_square (f - i) (7 - r - i))
          (takeWhile (\<lambda>i. f - i \<ge> 0 \<and> 7 - r - i \<ge> 0) [1..8]) =
        map flip_sq (map (\<lambda>i. make_square (f - i) (r + i))
          (takeWhile (\<lambda>i. f - i \<ge> 0 \<and> r + i < 8) [1..8])) \<and>
      list_all (\<lambda>x. 0 \<le> x \<and> x < 64) (map (\<lambda>i. make_square (f + i) (r + i))
           (takeWhile (\<lambda>i. f + i < 8 \<and> r + i < 8) [1..8])) \<and>
      list_all (\<lambda>x. 0 \<le> x \<and> x < 64) (map (\<lambda>i. make_square (f - i) (r + i))
           (takeWhile (\<lambda>i. f - i \<ge> 0 \<and> r + i < 8) [1..8])) \<and>
      list_all (\<lambda>x. 0 \<le> x \<and> x < 64) (map (\<lambda>i. make_square (f + i) (r - i))
           (takeWhile (\<lambda>i. f + i < 8 \<and> r - i \<ge> 0) [1..8])) \<and>
      list_all (\<lambda>x. 0 \<le> x \<and> x < 64) (map (\<lambda>i. make_square (f - i) (r - i))
           (takeWhile (\<lambda>i. f - i \<ge> 0 \<and> r - i \<ge> 0) [1..8]))"
    for f r :: int
  have "list_all (\<lambda>f. list_all (\<lambda>r. Q f r) [0..7]) [0..7]"
    unfolding Q_def
    apply (simp add: upto_0_7 upto_unfold make_square_props(5))
    apply (simp add: make_square_def)
    done
  then have q: "Q f r" using assms by (simp add: list_all_iff)
  from q show "map (\<lambda>i. make_square (f + i) (7 - r + i))
          (takeWhile (\<lambda>i. f + i < 8 \<and> 7 - r + i < 8) [1..8]) =
        map flip_sq (map (\<lambda>i. make_square (f + i) (r - i))
          (takeWhile (\<lambda>i. f + i < 8 \<and> r - i \<ge> 0) [1..8]))"
    unfolding Q_def by (elim conjE)
  from q show "map (\<lambda>i. make_square (f - i) (7 - r + i))
          (takeWhile (\<lambda>i. f - i \<ge> 0 \<and> 7 - r + i < 8) [1..8]) =
        map flip_sq (map (\<lambda>i. make_square (f - i) (r - i))
          (takeWhile (\<lambda>i. f - i \<ge> 0 \<and> r - i \<ge> 0) [1..8]))"
    unfolding Q_def by (elim conjE)
  from q show "map (\<lambda>i. make_square (f + i) (7 - r - i))
          (takeWhile (\<lambda>i. f + i < 8 \<and> 7 - r - i \<ge> 0) [1..8]) =
        map flip_sq (map (\<lambda>i. make_square (f + i) (r + i))
          (takeWhile (\<lambda>i. f + i < 8 \<and> r + i < 8) [1..8]))"
    unfolding Q_def by (elim conjE)
  from q show "map (\<lambda>i. make_square (f - i) (7 - r - i))
          (takeWhile (\<lambda>i. f - i \<ge> 0 \<and> 7 - r - i \<ge> 0) [1..8]) =
        map flip_sq (map (\<lambda>i. make_square (f - i) (r + i))
          (takeWhile (\<lambda>i. f - i \<ge> 0 \<and> r + i < 8) [1..8]))"
    unfolding Q_def by (elim conjE)
  from q show "\<forall>x\<in>set (map (\<lambda>i. make_square (f + i) (r + i))
           (takeWhile (\<lambda>i. f + i < 8 \<and> r + i < 8) [1..8])). 0 \<le> x \<and> x < 64"
    unfolding Q_def list_all_iff by (elim conjE)
  from q show "\<forall>x\<in>set (map (\<lambda>i. make_square (f - i) (r + i))
           (takeWhile (\<lambda>i. f - i \<ge> 0 \<and> r + i < 8) [1..8])). 0 \<le> x \<and> x < 64"
    unfolding Q_def list_all_iff by (elim conjE)
  from q show "\<forall>x\<in>set (map (\<lambda>i. make_square (f + i) (r - i))
           (takeWhile (\<lambda>i. f + i < 8 \<and> r - i \<ge> 0) [1..8])). 0 \<le> x \<and> x < 64"
    unfolding Q_def list_all_iff by (elim conjE)
  from q show "\<forall>x\<in>set (map (\<lambda>i. make_square (f - i) (r - i))
           (takeWhile (\<lambda>i. f - i \<ge> 0 \<and> r - i \<ge> 0) [1..8])). 0 \<le> x \<and> x < 64"
    unfolding Q_def list_all_iff by (elim conjE)
qed

lemma rook_attacks_rays:
  "rook_attacks_magic s occ =
     ray occ (map (\<lambda>rr. make_square (file_of s) rr) [rank_of s + 1..7]) 0 OR
     ray occ (map (\<lambda>rr. make_square (file_of s) rr) (rev [0..rank_of s - 1])) 0 OR
     ray occ (map (\<lambda>ff. make_square ff (rank_of s)) [file_of s + 1..7]) 0 OR
     ray occ (map (\<lambda>ff. make_square ff (rank_of s)) (rev [0..file_of s - 1])) 0"
  unfolding rook_attacks_magic_def Let_def by (rule ray4)

lemma bishop_attacks_rays:
  "bishop_attacks_magic s occ =
     ray occ (map (\<lambda>i. make_square (file_of s + i) (rank_of s + i))
                (takeWhile (\<lambda>i. file_of s + i < 8 \<and> rank_of s + i < 8) [1..8])) 0 OR
     ray occ (map (\<lambda>i. make_square (file_of s - i) (rank_of s + i))
                (takeWhile (\<lambda>i. file_of s - i \<ge> 0 \<and> rank_of s + i < 8) [1..8])) 0 OR
     ray occ (map (\<lambda>i. make_square (file_of s + i) (rank_of s - i))
                (takeWhile (\<lambda>i. file_of s + i < 8 \<and> rank_of s - i \<ge> 0) [1..8])) 0 OR
     ray occ (map (\<lambda>i. make_square (file_of s - i) (rank_of s - i))
                (takeWhile (\<lambda>i. file_of s - i \<ge> 0 \<and> rank_of s - i \<ge> 0) [1..8])) 0"
  unfolding bishop_attacks_magic_def Let_def by (rule ray4)

lemma rook_attacks_flip:
  assumes "0 \<le> s" "s < 64"
  shows "rook_attacks_magic (flip_sq s) (flip_bb occ) = flip_bb (rook_attacks_magic s occ)"
proof -
  define f where "f = file_of s"
  define r where "r = rank_of s"
  have fr: "f \<in> set [0..7]" "r \<in> set [0..7]"
    using flip_sq_props(6-9) [OF assms] by (simp_all add: f_def r_def)
  have ff: "file_of (flip_sq s) = f" "rank_of (flip_sq s) = 7 - r"
    using flip_sq_props(3,4) [OF assms] by (simp_all add: f_def r_def)
  note L = rook_lists [OF fr]
  have "rook_attacks_magic (flip_sq s) (flip_bb occ) =
     flip_bb (ray occ (map (\<lambda>rr. make_square f rr) (rev [0..r - 1])) 0) OR
     flip_bb (ray occ (map (\<lambda>rr. make_square f rr) [r + 1..7]) 0) OR
     flip_bb (ray occ (map (\<lambda>ff. make_square ff r) [f + 1..7]) 0) OR
     flip_bb (ray occ (map (\<lambda>ff. make_square ff r) (rev [0..f - 1])) 0)"
    unfolding rook_attacks_rays ff L(1-4)
    unfolding ray_flip0 [OF L(5)] ray_flip0 [OF L(6)] ray_flip0 [OF L(7)] ray_flip0 [OF L(8)]
    by (rule refl)
  also have "\<dots> = flip_bb (rook_attacks_magic s occ)"
    unfolding rook_attacks_rays f_def [symmetric] r_def [symmetric] flip_bb_or
    by (simp only: ac_simps)
  finally show ?thesis .
qed

lemma bishop_attacks_flip:
  assumes "0 \<le> s" "s < 64"
  shows "bishop_attacks_magic (flip_sq s) (flip_bb occ) = flip_bb (bishop_attacks_magic s occ)"
proof -
  define f where "f = file_of s"
  define r where "r = rank_of s"
  have fr: "f \<in> set [0..7]" "r \<in> set [0..7]"
    using flip_sq_props(6-9) [OF assms] by (simp_all add: f_def r_def)
  have ff: "file_of (flip_sq s) = f" "rank_of (flip_sq s) = 7 - r"
    using flip_sq_props(3,4) [OF assms] by (simp_all add: f_def r_def)
  note L = bishop_lists [OF fr]
  have "bishop_attacks_magic (flip_sq s) (flip_bb occ) =
     flip_bb (ray occ (map (\<lambda>i. make_square (f + i) (r - i))
          (takeWhile (\<lambda>i. f + i < 8 \<and> r - i \<ge> 0) [1..8])) 0) OR
     flip_bb (ray occ (map (\<lambda>i. make_square (f - i) (r - i))
          (takeWhile (\<lambda>i. f - i \<ge> 0 \<and> r - i \<ge> 0) [1..8])) 0) OR
     flip_bb (ray occ (map (\<lambda>i. make_square (f + i) (r + i))
          (takeWhile (\<lambda>i. f + i < 8 \<and> r + i < 8) [1..8])) 0) OR
     flip_bb (ray occ (map (\<lambda>i. make_square (f - i) (r + i))
          (takeWhile (\<lambda>i. f - i \<ge> 0 \<and> r + i < 8) [1..8])) 0)"
    unfolding bishop_attacks_rays ff L(1-4)
    unfolding ray_flip0 [OF L(5)] ray_flip0 [OF L(6)] ray_flip0 [OF L(7)] ray_flip0 [OF L(8)]
    by (rule refl)
  also have "\<dots> = flip_bb (bishop_attacks_magic s occ)"
    unfolding bishop_attacks_rays f_def [symmetric] r_def [symmetric] flip_bb_or
    by (simp only: ac_simps)
  finally show ?thesis .
qed

lemma queen_attacks_flip:
  assumes "0 \<le> s" "s < 64"
  shows "queen_attacks_magic (flip_sq s) (flip_bb occ) = flip_bb (queen_attacks_magic s occ)"
  by (simp add: queen_attacks_magic_def rook_attacks_flip [OF assms] bishop_attacks_flip [OF assms]
      flip_bb_or)

lemma flip_sq_bit_mk:
  assumes "0 \<le> f" "f < 8" "0 \<le> r" "r < 8"
  shows "flip_bb (sq_bit (make_square f r)) = sq_bit (make_square f (7 - r))"
  using make_square_props [OF assms] flip_bb_sq_bit by simp

lemma knight_table:
  "list_all (\<lambda>f. list_all (\<lambda>r.
      knight_attacks (make_square f (7 - r)) = flip_bb (knight_attacks (make_square f r)))
    [0..7]) [0..7]"
  apply (simp add: upto_0_7 knight_attacks_def make_square_props(3,4) on_board_def flip_bb_or
      flip_bb_0 flip_sq_bit_mk)
  apply (simp add: make_square_def ac_simps)
  done

lemma king_table:
  "list_all (\<lambda>f. list_all (\<lambda>r.
      king_attacks (make_square f (7 - r)) = flip_bb (king_attacks (make_square f r)))
    [0..7]) [0..7]"
  apply (simp add: upto_0_7 king_attacks_def make_square_props(3,4) on_board_def flip_bb_or
      flip_bb_0 flip_sq_bit_mk)
  apply (simp add: make_square_def ac_simps)
  done

lemma pawn_table:
  "list_all (\<lambda>f. list_all (\<lambda>r.
      pawn_attacks BLACK (make_square f (7 - r)) = flip_bb (pawn_attacks WHITE (make_square f r)) \<and>
      pawn_attacks WHITE (make_square f (7 - r)) = flip_bb (pawn_attacks BLACK (make_square f r)))
    [0..7]) [0..7]"
  by (simp add: upto_0_7 pawn_attacks_def make_square_props(3,4) on_board_def flip_bb_or
      flip_bb_0 flip_sq_bit_mk)

lemma attack_table_flip:
  assumes "0 \<le> s" "s < 64"
  shows "knight_attacks (flip_sq s) = flip_bb (knight_attacks s)"
    "king_attacks (flip_sq s) = flip_bb (king_attacks s)"
    "pawn_attacks (opp c) (flip_sq s) = flip_bb (pawn_attacks c s)"
proof -
  define f where "f = file_of s"
  define r where "r = rank_of s"
  have fr: "f \<in> set [0..7]" "r \<in> set [0..7]"
    using flip_sq_props(6-9) [OF assms] by (simp_all add: f_def r_def)
  have s: "s = make_square f r" using flip_sq_props(10) [OF assms] by (simp add: f_def r_def)
  have fs: "flip_sq s = make_square f (7 - r)"
    unfolding s using fr by (simp add: make_square_props(5))
  show "knight_attacks (flip_sq s) = flip_bb (knight_attacks s)"
    unfolding fs unfolding s using knight_table fr by (simp add: list_all_iff)
  show "king_attacks (flip_sq s) = flip_bb (king_attacks s)"
    unfolding fs unfolding s using king_table fr by (simp add: list_all_iff)
  show "pawn_attacks (opp c) (flip_sq s) = flip_bb (pawn_attacks c s)"
    unfolding fs unfolding s using pawn_table fr by (cases c) (simp_all add: list_all_iff opp_def)
qed

end
